theory Spec2Isabelle
  imports Complex_Main "HOL-Library.Multiset"
begin

section \<open>The matching agent of the real-estate recommender\<close>

text \<open>
  This theory embeds \<^verbatim>\<open>src/real_estate_agents/matching_agent/agent.py\<close>: the four
  criterion scorers, the parsing of the budget and commute text, the weighted total,
  the reason string, the ranking and the summary.

  Conventions of the embedding.
  \<^item> A Python \<^verbatim>\<open>str\<close> is the list of its Unicode code points (\<open>ustr\<close>): the source
    compares, searches and splits strings by code point, and its literals are Chinese.
    Every literal of the source appears below as a named constant with its code points.
  \<^item> A Python \<^verbatim>\<open>float\<close> is an IEEE binary64 number. A finite float is the real
    number it denotes, and each arithmetic operation of the source is the exact
    operation followed by \<open>b64\<close>, rounding to the nearest binary64 value with ties to
    even (53 significant bits, gradual underflow below \<open>2 powi - 1022\<close>). The two
    zeros are one number: the source never looks at the sign of a zero.
  \<^item> Infinities and NaN enter the program through \<^verbatim>\<open>float(text)\<close> in the budget
    parsing only, so the parsed bounds have the type \<open>float_value\<close>, and the product
    with 10000 and the budget scorer follow IEEE arithmetic on them. Prices, weights
    and scores are finite floats, of type \<open>real\<close>. The rounding \<open>b64\<close> has no largest
    exponent: where an operation on finite floats overflows the binary64 range
    (a result of magnitude \<open>2 ^ 1024\<close> or more), Python continues with an infinity and
    the model with the rounded finite number. For a listing with a non-negative price
    and commute time, bounds that come from the parsing, and an agent built from
    non-negative weights whose sum stays in the binary64 range, no score and no total
    depends on such a result.
  \<^item> A Python \<^verbatim>\<open>int\<close> is an \<open>int\<close>; its conversion to a float and the true
    division of two ints round correctly and raise \<^verbatim>\<open>OverflowError\<close> when the
    result is out of the binary64 range.
  \<^item> An exception is a value: functions that can raise return \<open>py_error + 'a\<close>, with
    \<open>Inl\<close> the exception. Division is \<open>py_div\<close>, which raises on a zero divisor as
    Python's \<^verbatim>\<open>/\<close> does.
  \<^item> A dictionary with a fixed set of keys read by the code is a record of optional
    fields; \<open>None\<close> is the absent key.
  \<^item> The behaviour of the builtins is that of CPython 3.11 (Unicode 14.0, integer
    string conversion limit at its default of 4300 digits).
\<close>

subsection \<open>Strings and exceptions\<close>

type_synonym ustr = "nat list"

datatype py_error = KeyError | ValueError | ZeroDivisionError | OverflowError

text \<open>\<^verbatim>\<open>s.startswith(p)\<close> and \<^verbatim>\<open>sub in s\<close> on strings.\<close>

fun starts_with :: "'a list \<Rightarrow> 'a list \<Rightarrow> bool" where
  "starts_with s [] = True"
| "starts_with [] (p # ps) = False"
| "starts_with (c # cs) (p # ps) = (c = p \<and> starts_with cs ps)"

fun py_in :: "'a list \<Rightarrow> 'a list \<Rightarrow> bool" where
  "py_in sub [] = (sub = [])"
| "py_in sub (c # cs) = (starts_with (c # cs) sub \<or> py_in sub cs)"

definition py_bind :: "py_error + 'a \<Rightarrow> ('a \<Rightarrow> py_error + 'b) \<Rightarrow> py_error + 'b" where
  "py_bind r f = (case r of Inl e \<Rightarrow> Inl e | Inr v \<Rightarrow> f v)"

subsection \<open>Binary64 arithmetic\<close>

text \<open>Rounding a real number to the nearest integer, a tie going to the even one.\<close>

definition round_half_even :: "real \<Rightarrow> int" where
  "round_half_even r =
     (let f = \<lfloor>r\<rfloor>; d = r - of_int f in
      if d < 1 / 2 then f else if 1 / 2 < d then f + 1 else if even f then f else f + 1)"

text \<open>The binary exponent of a positive real \<open>x\<close>: the integer \<open>e\<close> with
  \<open>2 powi e \<le> x < 2 powi (e + 1)\<close>, found by halving or doubling.\<close>

function floor_log2_up :: "real \<Rightarrow> int" where
  "floor_log2_up x = (if x < 2 then 0 else floor_log2_up (x / 2) + 1)"
  by pat_completeness auto
termination
proof (relation "measure (\<lambda>x. nat \<lceil>x\<rceil>)")
  show "wf (measure (\<lambda>x. nat \<lceil>x\<rceil>))" by simp
next
  fix x :: real assume "\<not> x < 2"
  then have "x / 2 \<le> x - 1" by simp
  then have "\<lceil>x / 2\<rceil> \<le> \<lceil>x - 1\<rceil>" by (rule ceiling_mono)
  moreover have "0 < \<lceil>x\<rceil>" using \<open>\<not> x < 2\<close> by (simp add: ceiling_less_iff)
  ultimately show "(x / 2, x) \<in> measure (\<lambda>x. nat \<lceil>x\<rceil>)" by simp
qed

function floor_log2_down :: "real \<Rightarrow> int" where
  "floor_log2_down x = (if x \<le> 0 \<or> 1 \<le> x then 0 else floor_log2_down (2 * x) - 1)"
  by pat_completeness auto
termination
proof (relation "measure (\<lambda>x. nat \<lceil>1 / x\<rceil>)")
  show "wf (measure (\<lambda>x. nat \<lceil>1 / x\<rceil>))" by simp
next
  fix x :: real assume "\<not> (x \<le> 0 \<or> 1 \<le> x)"
  then have x: "0 < x" "x < 1" by simp_all
  have y: "1 < 1 / x" using x by simp
  have half: "1 / (2 * x) = (1 / x) / 2" by simp
  show "(2 * x, x) \<in> measure (\<lambda>x. nat \<lceil>1 / x\<rceil>)"
  proof (cases "2 \<le> 1 / x")
    case True
    then have "1 / (2 * x) \<le> 1 / x - 1" unfolding half by simp
    then have "\<lceil>1 / (2 * x)\<rceil> \<le> \<lceil>1 / x - 1\<rceil>" by (rule ceiling_mono)
    moreover have pos: "0 < \<lceil>1 / x\<rceil>" using x by (simp add: less_ceiling_iff)
    ultimately have "\<lceil>1 / (2 * x)\<rceil> < \<lceil>1 / x\<rceil>" by linarith
    then show ?thesis unfolding in_measure using pos by (simp only: nat_mono_iff)
  next
    case False
    then have "1 / (2 * x) \<le> 1" unfolding half by simp
    then have "\<lceil>1 / (2 * x)\<rceil> \<le> 1" by (simp add: ceiling_le_iff)
    moreover have big: "1 < \<lceil>1 / x\<rceil>" using y by (simp only: less_ceiling_iff of_int_1)
    ultimately have "\<lceil>1 / (2 * x)\<rceil> < \<lceil>1 / x\<rceil>" by linarith
    moreover have "0 < \<lceil>1 / x\<rceil>" using big by linarith
    ultimately show ?thesis unfolding in_measure by (simp only: nat_mono_iff)
  qed
qed

definition floor_log2 :: "real \<Rightarrow> int" where
  "floor_log2 x = (if 1 \<le> x then floor_log2_up x else floor_log2_down x)"

text \<open>
  \<open>b64 x\<close> is \<open>x\<close> rounded to binary64: a multiple of \<open>2 powi (e - 52)\<close>, where \<open>e\<close> is
  the binary exponent of \<open>x\<close>, and at least -1022 (below that the spacing stays
  \<open>2 powi - 1074\<close>, the subnormal numbers).
\<close>

definition b64 :: "real \<Rightarrow> real" where
  "b64 x =
     (if x = 0 then 0
      else let e = max (floor_log2 \<bar>x\<bar>) (- 1022); ulp = 2 powi (e - 52)
           in of_int (round_half_even (x / ulp)) * ulp)"

text \<open>The operations of the source on finite floats: \<^verbatim>\<open>+\<close>, \<^verbatim>\<open>-\<close>, \<^verbatim>\<open>*\<close>,
  and \<^verbatim>\<open>/\<close>, which raises on a zero divisor.\<close>

definition fadd :: "real \<Rightarrow> real \<Rightarrow> real" where
  "fadd x y = b64 (x + y)"

definition fsub :: "real \<Rightarrow> real \<Rightarrow> real" where
  "fsub x y = b64 (x - y)"

definition fmul :: "real \<Rightarrow> real \<Rightarrow> real" where
  "fmul x y = b64 (x * y)"

definition py_div :: "real \<Rightarrow> real \<Rightarrow> py_error + real" where
  "py_div a b = (if b = 0 then Inl ZeroDivisionError else Inr (b64 (a / b)))"

text \<open>
  A float that may be an infinity or NaN, and \<open>fl\<close>, the rounding of a real number
  with the binary64 range: a rounded magnitude of \<open>2 ^ 1024\<close> or more is an infinity.
\<close>

datatype float_value = Finite real | PosInf | NegInf | NaN

definition float_overflows :: "real \<Rightarrow> bool" where
  "float_overflows x \<longleftrightarrow> 2 ^ 1024 \<le> \<bar>x\<bar>"

definition fl :: "real \<Rightarrow> float_value" where
  "fl x =
     (let r = b64 x in
      if float_overflows r then (if 0 < r then PosInf else NegInf) else Finite r)"

text \<open>\<^verbatim>\<open>x * k\<close> for a float \<open>x\<close> and a finite positive float \<open>k\<close>.\<close>

definition float_times :: "float_value \<Rightarrow> real \<Rightarrow> float_value" where
  "float_times x k = (case x of Finite v \<Rightarrow> fl (v * k) | PosInf \<Rightarrow> PosInf
                      | NegInf \<Rightarrow> NegInf | NaN \<Rightarrow> NaN)"

text \<open>\<^verbatim>\<open>x <= y\<close> and \<^verbatim>\<open>x < y\<close> on floats: every comparison with NaN is false.\<close>

fun float_le :: "float_value \<Rightarrow> float_value \<Rightarrow> bool" where
  "float_le NaN y = False"
| "float_le x NaN = False"
| "float_le NegInf y = True"
| "float_le x PosInf = True"
| "float_le PosInf y = False"
| "float_le x NegInf = False"
| "float_le (Finite a) (Finite b) = (a \<le> b)"

fun float_less :: "float_value \<Rightarrow> float_value \<Rightarrow> bool" where
  "float_less NaN y = False"
| "float_less x NaN = False"
| "float_less PosInf y = False"
| "float_less x NegInf = False"
| "float_less NegInf y = True"
| "float_less x PosInf = True"
| "float_less (Finite a) (Finite b) = (a < b)"

text \<open>
  \<^verbatim>\<open>float(n)\<close> for an int \<open>n\<close>, as done by \<^verbatim>\<open>n / 60.0\<close>, and the true division
  \<^verbatim>\<open>a / b\<close> of two ints. Both round the exact result once.
\<close>

definition int_to_float :: "int \<Rightarrow> py_error + real" where
  "int_to_float n =
     (let x = b64 (real_of_int n) in
      if float_overflows x then Inl OverflowError else Inr x)"

definition int_true_div :: "int \<Rightarrow> int \<Rightarrow> py_error + real" where
  "int_true_div a b =
     (if b = 0 then Inl ZeroDivisionError
      else let q = b64 (real_of_int a / real_of_int b) in
           if float_overflows q then Inl OverflowError else Inr q)"

subsection \<open>String literals of the source\<close>

text \<open>Area names: U+671D U+9633 U+533A (Chaoyang), U+6D77 U+6DC0 U+533A (Haidian),
  U+4E1C U+57CE U+533A (Dongcheng), U+897F U+57CE U+533A (Xicheng),
  U+4E30 U+53F0 U+533A (Fengtai).\<close>

definition area_chaoyang :: ustr where "area_chaoyang = [26397, 38451, 21306]"
definition area_haidian :: ustr where "area_haidian = [28023, 28096, 21306]"
definition area_dongcheng :: ustr where "area_dongcheng = [19996, 22478, 21306]"
definition area_xicheng :: ustr where "area_xicheng = [35199, 22478, 21306]"
definition area_fengtai :: ustr where "area_fengtai = [20016, 21488, 21306]"

text \<open>School names, in the order of \<^verbatim>\<open>school_quality_map\<close>.\<close>

definition school_beijing_second_experimental :: ustr where
  "school_beijing_second_experimental = [21271, 20140, 31532, 20108, 23454, 39564, 23567, 23398]"
definition school_zhongguancun_first :: ustr where
  "school_zhongguancun_first = [20013, 20851, 26449, 31532, 19968, 23567, 23398]"
definition school_chaoyang_experimental :: ustr where
  "school_chaoyang_experimental = [26397, 38451, 23454, 39564, 23567, 23398]"
definition school_chaoyang_foreign_language :: ustr where
  "school_chaoyang_foreign_language = [26397, 38451, 22806, 22269, 35821, 23398, 26657]"
definition school_fengtai_fifth :: ustr where
  "school_fengtai_fifth = [20016, 21488, 31532, 20116, 23567, 23398]"
definition school_fengtai_experimental :: ustr where
  "school_fengtai_experimental = [20016, 21488, 23454, 39564, 23567, 23398]"


subsection \<open>Area and school scores\<close>

definition area_similarity_map :: "(ustr \<times> ustr list) list" where
  "area_similarity_map =
     [(area_chaoyang, [area_haidian, area_dongcheng]),
      (area_haidian, [area_chaoyang, area_xicheng]),
      (area_xicheng, [area_haidian, area_dongcheng]),
      (area_dongcheng, [area_xicheng, area_chaoyang]),
      (area_fengtai, [area_chaoyang, area_xicheng])]"

text \<open>
  \<^verbatim>\<open>calculate_area_score(property_area, required_area)\<close>. The result is one of the
  four literals that the source returns, as the decimal written there; the float that
  the literal denotes is \<open>b64\<close> of it, taken where \<^verbatim>\<open>calculate_matching_score\<close>
  receives the score.
\<close>

definition calculate_area_score :: "ustr \<Rightarrow> ustr \<Rightarrow> real" where
  "calculate_area_score property_area required_area =
     (if required_area = [] then 0.5
      else if py_in required_area property_area \<or> py_in property_area required_area then 1.0
      else
        let similar_areas =
              (case map_of area_similarity_map required_area of
                 None \<Rightarrow> [] | Some areas \<Rightarrow> areas)
        in if property_area \<in> set similar_areas then 0.7 else 0.2)"

text \<open>The quality table holds floats: each entry is the float of its literal.\<close>

definition school_quality_map :: "(ustr \<times> real) list" where
  "school_quality_map =
     [(school_beijing_second_experimental, b64 0.95),
      (school_zhongguancun_first, b64 0.90),
      (school_chaoyang_experimental, b64 0.85),
      (school_chaoyang_foreign_language, b64 0.88),
      (school_fengtai_fifth, b64 0.75),
      (school_fengtai_experimental, b64 0.78)]"

definition school_quality :: "ustr \<Rightarrow> real" where
  "school_quality school =
     (case map_of school_quality_map school of None \<Rightarrow> b64 0.6 | Some q \<Rightarrow> q)"

definition calculate_school_score :: "ustr \<Rightarrow> ustr \<Rightarrow> real" where
  "calculate_school_score property_school required_school =
     (if required_school = [] then 0.5
      else if py_in required_school property_school \<or> py_in property_school required_school
      then 1.0
      else
        let property_quality = school_quality property_school;
            required_quality = school_quality required_school;
            quality_diff = \<bar>fsub property_quality required_quality\<bar>
        in max 0.0 (fsub 1.0 (fmul quality_diff 2)))"

subsection \<open>Budget and commute scores\<close>

text \<open>
  The two formulas of the budget scorer, for a finite price and a bound that may be an
  infinity or NaN. \<open>budget_ratio\<close> is \<^verbatim>\<open>max(0.0, property_price / budget_min)\<close> and
  \<open>budget_decay\<close> is \<^verbatim>\<open>max(0.0, 1.0 - (property_price - budget_max) / budget_max)\<close>.
  A finite price divided by an infinity is a zero; with an infinite or NaN cap the
  quotient of the decay is NaN; and \<^verbatim>\<open>max(0.0, x)\<close> is 0.0 unless \<open>x > 0.0\<close>, so it is
  0.0 for NaN.
\<close>

definition budget_ratio :: "real \<Rightarrow> float_value \<Rightarrow> py_error + real" where
  "budget_ratio property_price budget_min =
     (case budget_min of
        Finite m \<Rightarrow> py_bind (py_div property_price m) (\<lambda>q. Inr (max 0.0 q))
      | PosInf \<Rightarrow> Inr 0.0 | NegInf \<Rightarrow> Inr 0.0 | NaN \<Rightarrow> Inr 0.0)"

definition budget_decay :: "real \<Rightarrow> float_value \<Rightarrow> py_error + real" where
  "budget_decay property_price budget_max =
     (case budget_max of
        Finite m \<Rightarrow> py_bind (py_div (fsub property_price m) m)
                      (\<lambda>q. Inr (max 0.0 (fsub 1.0 q)))
      | PosInf \<Rightarrow> Inr 0.0 | NegInf \<Rightarrow> Inr 0.0 | NaN \<Rightarrow> Inr 0.0)"

text \<open>
  \<^verbatim>\<open>calculate_budget_score(property_price, budget_min, budget_max)\<close>. The four
  equations are the four blocks of the source, in its order; the divisions raise on a
  zero bound.
\<close>

fun calculate_budget_score ::
  "real \<Rightarrow> float_value option \<Rightarrow> float_value option \<Rightarrow> py_error + real" where
  "calculate_budget_score property_price None None = Inr 0.5"
| "calculate_budget_score property_price (Some budget_min) None =
     (if float_le budget_min (Finite property_price) then Inr 1.0
      else budget_ratio property_price budget_min)"
| "calculate_budget_score property_price None (Some budget_max) =
     (if float_le (Finite property_price) budget_max then Inr 1.0
      else budget_decay property_price budget_max)"
| "calculate_budget_score property_price (Some budget_min) (Some budget_max) =
     (if float_le budget_min (Finite property_price)
         \<and> float_le (Finite property_price) budget_max then Inr 1.0
      else if float_less (Finite property_price) budget_min
      then budget_ratio property_price budget_min
      else budget_decay property_price budget_max)"

text \<open>\<^verbatim>\<open>calculate_commute_score(property_commute, required_commute)\<close>; both are
  integers: \<^verbatim>\<open>property_commute / 60.0\<close> converts the int to a float first, and
  the excess ratio is a true division of two ints.\<close>

fun calculate_commute_score :: "int \<Rightarrow> int option \<Rightarrow> py_error + real" where
  "calculate_commute_score property_commute None =
     py_bind (int_to_float property_commute) (\<lambda>minutes.
     py_bind (py_div minutes 60.0) (\<lambda>q. Inr (max 0.0 (fsub 1.0 q))))"
| "calculate_commute_score property_commute (Some required_commute) =
     (if property_commute \<le> required_commute then Inr 1.0
      else py_bind (int_true_div (property_commute - required_commute) required_commute)
             (\<lambda>excess_ratio. Inr (max 0.0 (fsub 1.0 excess_ratio))))"

subsection \<open>The agent and its weights\<close>

record matching_agent =
  budget_weight :: real
  area_weight :: real
  school_weight :: real
  commute_weight :: real

text \<open>\<^verbatim>\<open>MatchingAgent.__init__\<close>: the raw weights are added from the left, and each
  weight is divided by the sum.\<close>

definition matching_agent_init :: "real \<Rightarrow> real \<Rightarrow> real \<Rightarrow> real \<Rightarrow> py_error + matching_agent" where
  "matching_agent_init bw aw sw cw =
     (let total_weight = fadd (fadd (fadd bw aw) sw) cw in
      py_bind (py_div bw total_weight) (\<lambda>b.
      py_bind (py_div aw total_weight) (\<lambda>a.
      py_bind (py_div sw total_weight) (\<lambda>s.
      py_bind (py_div cw total_weight) (\<lambda>c.
        Inr \<lparr>budget_weight = b, area_weight = a, school_weight = s, commute_weight = c\<rparr>)))))"

text \<open>The sum of the four stored weights, added as floats in the order of the fields.\<close>

definition weight_sum :: "matching_agent \<Rightarrow> real" where
  "weight_sum ag =
     fadd (fadd (fadd (budget_weight ag) (area_weight ag)) (school_weight ag))
          (commute_weight ag)"

subsection \<open>Builtins used by the text parsing\<close>

text \<open>
  \<^verbatim>\<open>str.replace(old, "")\<close>: every non-overlapping occurrence of \<open>old\<close>, found from
  the left, is removed.
\<close>

function py_remove :: "'a list \<Rightarrow> 'a list \<Rightarrow> 'a list" where
  "py_remove old [] = []"
| "py_remove old (c # cs) =
     (if old \<noteq> [] \<and> starts_with (c # cs) old
      then py_remove old (drop (length old) (c # cs))
      else c # py_remove old cs)"
  by pat_completeness auto
termination
  by (relation "measure (\<lambda>(old, s). length s)") (auto simp: neq_Nil_conv)

text \<open>\<^verbatim>\<open>str.split(sep)\<close> for a separator of one character.\<close>

fun py_split :: "'a list \<Rightarrow> 'a \<Rightarrow> 'a list list" where
  "py_split [] sep = [[]]"
| "py_split (c # cs) sep =
     (if c = sep then [] # py_split cs sep
      else (case py_split cs sep of [] \<Rightarrow> [[c]] | p # ps \<Rightarrow> (c # p) # ps))"

text \<open>\<^verbatim>\<open>str.isspace\<close> on one character (the code points Python counts as
  whitespace) and \<^verbatim>\<open>str.strip()\<close>.\<close>

definition py_isspace :: "nat \<Rightarrow> bool" where
  "py_isspace c \<longleftrightarrow>
     c \<in> set [9, 10, 11, 12, 13, 28, 29, 30, 31, 32, 133, 160, 5760,
              8192, 8193, 8194, 8195, 8196, 8197, 8198, 8199, 8200, 8201, 8202,
              8232, 8233, 8239, 8287, 12288]"

definition py_strip :: "ustr \<Rightarrow> ustr" where
  "py_strip s = rev (dropWhile py_isspace (rev (dropWhile py_isspace s)))"

text \<open>
  Decimal digits. Python's \<^verbatim>\<open>\d\<close>, \<^verbatim>\<open>int\<close> and \<^verbatim>\<open>float\<close> read the decimal
  digits of every script: the characters of the Unicode category Nd, which come in
  runs of ten consecutive code points for the digits 0 to 9. The list has the first
  code point of each run (Unicode 14.0: 66 runs, the first being the ASCII digits).
\<close>

definition decimal_digit_blocks :: "nat list" where
  "decimal_digit_blocks =
     [48, 1632, 1776, 1984, 2406, 2534, 2662, 2790, 2918, 3046, 3174, 3302, 3430, 3558,
      3664, 3792, 3872, 4160, 4240, 6112, 6160, 6470, 6608, 6784, 6800, 6992, 7088, 7232,
      7248, 42528, 43216, 43264, 43472, 43504, 43600, 44016, 65296, 66720, 68912, 69734,
      69872, 69942, 70096, 70384, 70736, 70864, 71248, 71360, 71472, 71904, 72016, 72784,
      73040, 73120, 92768, 92864, 93008, 120782, 120792, 120802, 120812, 120822, 123200,
      123632, 125264, 130032]"

definition digit_value :: "nat \<Rightarrow> nat option" where
  "digit_value c =
     map_option (\<lambda>b. c - b) (find (\<lambda>b. b \<le> c \<and> c < b + 10) decimal_digit_blocks)"

definition is_digit :: "nat \<Rightarrow> bool" where
  "is_digit c \<longleftrightarrow> (case digit_value c of None \<Rightarrow> False | Some d \<Rightarrow> True)"

text \<open>The number written by a string of decimal digits.\<close>

definition digits_value :: "ustr \<Rightarrow> nat" where
  "digits_value ds =
     foldl (\<lambda>acc c. 10 * acc + (case digit_value c of None \<Rightarrow> 0 | Some d \<Rightarrow> d)) 0 ds"

text \<open>
  \<^verbatim>\<open>float(s)\<close> on a string, in the steps of CPython.

  First a string with a character outside ASCII is transliterated: a whitespace
  character becomes a blank, a decimal digit its ASCII digit, any other character from
  code point 127 on becomes \<^verbatim>\<open>?\<close>. Then underscores are checked and dropped (each
  must stand between two digits), ASCII whitespace is stripped from both ends, and a
  sign is read. What remains is \<^verbatim>\<open>inf\<close>, \<^verbatim>\<open>infinity\<close> or \<^verbatim>\<open>nan\<close> in any
  case of the letters, or a decimal numeral: digits with an optional fraction, at least
  one digit in all, and an optional exponent (\<^verbatim>\<open>e\<close> or \<^verbatim>\<open>E\<close>, an optional sign,
  digits). Every other string raises \<^verbatim>\<open>ValueError\<close>. The value of a numeral is
  rounded correctly, to an infinity if it is out of range.
\<close>

definition float_transliterate :: "ustr \<Rightarrow> ustr" where
  "float_transliterate s =
     (if list_all (\<lambda>c. c < 128) s then s
      else map (\<lambda>c. if c < 127 then c
                     else if py_isspace c then 32
                     else (case digit_value c of None \<Rightarrow> 63 | Some d \<Rightarrow> 48 + d)) s)"

definition ascii_digit :: "nat \<Rightarrow> bool" where
  "ascii_digit c \<longleftrightarrow> 48 \<le> c \<and> c \<le> 57"

text \<open>The underscore check; the first argument is the character before, if any.\<close>

fun underscores_ok :: "nat option \<Rightarrow> ustr \<Rightarrow> bool" where
  "underscores_ok prev [] = (if prev = Some 95 then False else True)"
| "underscores_ok prev (c # cs) =
     (if c = 95
      then (case prev of None \<Rightarrow> False | Some p \<Rightarrow> ascii_digit p \<and> underscores_ok (Some c) cs)
      else if prev = Some 95 then ascii_digit c \<and> underscores_ok (Some c) cs
      else underscores_ok (Some c) cs)"

definition ascii_space :: "nat \<Rightarrow> bool" where
  "ascii_space c \<longleftrightarrow> c \<in> set [9, 10, 11, 12, 13, 32]"

definition strip_ascii :: "ustr \<Rightarrow> ustr" where
  "strip_ascii s = rev (dropWhile ascii_space (rev (dropWhile ascii_space s)))"

definition ascii_lower :: "nat \<Rightarrow> nat" where
  "ascii_lower c = (if 65 \<le> c \<and> c \<le> 90 then c + 32 else c)"

text \<open>The exponent part: empty, or \<^verbatim>\<open>e\<close>, an optional sign and digits. The result
  is the sign (\<open>True\<close> for a negative exponent) and the magnitude.\<close>

definition float_exponent :: "ustr \<Rightarrow> (bool \<times> nat) option" where
  "float_exponent s =
     (case s of
        [] \<Rightarrow> Some (False, 0)
      | c # r \<Rightarrow>
          if c = 101 \<or> c = 69 then
            (let negative = (case r of [] \<Rightarrow> False | d # _ \<Rightarrow> d = 45);
                 ds = (case r of [] \<Rightarrow> [] | d # r' \<Rightarrow> if d = 43 \<or> d = 45 then r' else r)
             in if ds = [] then None
                else if list_all ascii_digit ds then Some (negative, digits_value ds)
                else None)
          else None)"

definition float_numeral :: "ustr \<Rightarrow> py_error + float_value" where
  "float_numeral s =
     (let int_part = takeWhile ascii_digit s;
          rest = dropWhile ascii_digit s;
          frac_part = (case rest of [] \<Rightarrow> []
                       | c # r \<Rightarrow> if c = 46 then takeWhile ascii_digit r else []);
          rest = (case rest of [] \<Rightarrow> []
                  | c # r \<Rightarrow> if c = 46 then dropWhile ascii_digit r else rest)
      in if int_part = [] \<and> frac_part = [] then Inl ValueError
         else (case float_exponent rest of
                 None \<Rightarrow> Inl ValueError
               | Some (negative, n) \<Rightarrow>
                   let m = real (digits_value int_part)
                           + real (digits_value frac_part) / 10 ^ length frac_part
                   in Inr (fl (if negative then m / 10 ^ n else m * 10 ^ n))))"

definition float_unsigned :: "ustr \<Rightarrow> py_error + float_value" where
  "float_unsigned s =
     (let l = map ascii_lower s in
      if l = [105, 110, 102] \<or> l = [105, 110, 102, 105, 110, 105, 116, 121] then Inr PosInf
      else if l = [110, 97, 110] then Inr NaN
      else float_numeral s)"

definition float_negate :: "float_value \<Rightarrow> float_value" where
  "float_negate x = (case x of Finite v \<Rightarrow> Finite (- v) | PosInf \<Rightarrow> NegInf
                     | NegInf \<Rightarrow> PosInf | NaN \<Rightarrow> NaN)"

definition py_float :: "ustr \<Rightarrow> py_error + float_value" where
  "py_float s =
     (let t = float_transliterate s in
      if underscores_ok None t then
        (case strip_ascii (filter (\<lambda>c. c \<noteq> 95) t) of
           [] \<Rightarrow> Inl ValueError
         | c # cs \<Rightarrow>
             if c = 45 then py_bind (float_unsigned cs) (\<lambda>v. Inr (float_negate v))
             else if c = 43 then float_unsigned cs
             else float_unsigned (c # cs))
      else Inl ValueError)"

text \<open>
  \<^verbatim>\<open>int(s)\<close> for \<open>s\<close> a run of decimal digits, which is what \<^verbatim>\<open>\d+\<close> matches.
  CPython refuses a digit string longer than
  \<^verbatim>\<open>sys.int_info.default_max_str_digits\<close> (4300) with \<^verbatim>\<open>ValueError\<close>.
\<close>

definition int_max_str_digits :: nat where
  "int_max_str_digits = 4300"

definition py_int :: "ustr \<Rightarrow> py_error + int" where
  "py_int ds =
     (if length ds > int_max_str_digits then Inl ValueError else Inr (int (digits_value ds)))"

text \<open>\<^verbatim>\<open>re.findall(r'\d+', s)\<close>: the maximal runs of digits, from the left.
  The first argument is the run being read.\<close>

fun digit_runs :: "ustr \<Rightarrow> ustr \<Rightarrow> ustr list" where
  "digit_runs cur [] = (if cur = [] then [] else [cur])"
| "digit_runs cur (c # cs) =
     (if is_digit c then digit_runs (cur @ [c]) cs
      else if cur = [] then digit_runs [] cs
      else cur # digit_runs [] cs)"

definition re_findall_digits :: "ustr \<Rightarrow> ustr list" where
  "re_findall_digits s = digit_runs [] s"

subsection \<open>Parsing the budget and commute text\<close>

text \<open>The markers: U+4E07 (ten thousand), \<^verbatim>\<open>-\<close>, U+4EE5 U+5185 (or less),
  U+5206 U+949F (minutes).\<close>

definition marker_wan :: ustr where "marker_wan = [19975]"
definition char_dash :: nat where "char_dash = 45"
definition marker_yinei :: ustr where "marker_yinei = [20197, 20869]"
definition marker_fenzhong :: ustr where "marker_fenzhong = [20998, 38047]"

text \<open>The budget block of \<^verbatim>\<open>calculate_matching_score\<close> (source lines 190 to 201);
  the result is the pair \<^verbatim>\<open>(budget_min, budget_max)\<close>.\<close>

definition parse_budget :: "ustr \<Rightarrow> py_error + (float_value option \<times> float_value option)" where
  "parse_budget budget_str =
     (if budget_str \<noteq> [] \<and> py_in marker_wan budget_str then
        let budget_str = py_remove marker_wan budget_str in
        if py_in [char_dash] budget_str then
          let parts = py_split budget_str char_dash in
          if length parts = 2 then
            py_bind (py_float (py_strip (parts ! 0))) (\<lambda>lo.
            py_bind (py_float (py_strip (parts ! 1))) (\<lambda>hi.
              Inr (Some (float_times lo 10000), Some (float_times hi 10000))))
          else Inr (None, None)
        else if py_in marker_yinei budget_str then
          py_bind (py_float (py_strip (py_remove marker_yinei budget_str))) (\<lambda>hi.
            Inr (None, Some (float_times hi 10000)))
        else Inr (None, None)
      else Inr (None, None))"

text \<open>The commute block (source lines 204 to 209); the result is
  \<^verbatim>\<open>max_commute_time\<close>.\<close>

definition parse_commute :: "ustr \<Rightarrow> py_error + int option" where
  "parse_commute commute_str =
     (if commute_str \<noteq> [] \<and> py_in marker_fenzhong commute_str then
        (case re_findall_digits commute_str of
           [] \<Rightarrow> Inr None
         | n # _ \<Rightarrow> py_bind (py_int n) (\<lambda>v. Inr (Some v)))
      else Inr None)"

subsection \<open>Listings, requirements and the matching score\<close>

text \<open>
  A listing is the dictionary \<^verbatim>\<open>property_info\<close>; the record has the keys the
  matching agent reads, each optional (\<open>None\<close>: the key is absent, and reading it raises
  \<^verbatim>\<open>KeyError\<close>). The requirements are read with \<^verbatim>\<open>.get(key, "")\<close>, so an
  absent key counts as the empty string.
\<close>

record listing =
  property_id :: "ustr option"
  price :: "real option"
  area :: "ustr option"
  school_district :: "ustr option"
  commute_time :: "int option"
  address :: "ustr option"

record requirements =
  req_budget :: "ustr option"
  req_area :: "ustr option"
  req_school_district :: "ustr option"
  req_commute :: "ustr option"

record matching_score =
  score_property_id :: ustr
  total_score :: real
  budget_score :: real
  area_score :: real
  school_score :: real
  commute_score :: real
  recommendation_reason :: ustr

definition py_getitem :: "'a option \<Rightarrow> py_error + 'a" where
  "py_getitem v = (case v of None \<Rightarrow> Inl KeyError | Some x \<Rightarrow> Inr x)"

definition get_or_empty :: "ustr option \<Rightarrow> ustr" where
  "get_or_empty v = (case v of None \<Rightarrow> [] | Some s \<Rightarrow> s)"

text \<open>The phrases of the recommendation reason, strong then moderate for each
  criterion in the order budget, area, school, commute, the fallback phrase, and the
  separator U+FF0C. The thresholds are the floats of the literals \<^verbatim>\<open>0.8\<close> and
  \<^verbatim>\<open>0.6\<close>.\<close>

definition phrase_budget_strong :: ustr where
  "phrase_budget_strong = [20215, 26684, 31526, 21512, 39044, 31639]"
definition phrase_budget_moderate :: ustr where
  "phrase_budget_moderate = [20215, 26684, 22522, 26412, 31526, 21512, 39044, 31639]"
definition phrase_area_strong :: ustr where
  "phrase_area_strong = [20301, 32622, 20248, 36234]"
definition phrase_area_moderate :: ustr where
  "phrase_area_moderate = [20301, 32622, 36739, 22909]"
definition phrase_school_strong :: ustr where
  "phrase_school_strong = [23398, 21306, 20248, 36136]"
definition phrase_school_moderate :: ustr where
  "phrase_school_moderate = [23398, 21306, 19981, 38169]"
definition phrase_commute_strong :: ustr where
  "phrase_commute_strong = [36890, 21220, 20415, 21033]"
definition phrase_commute_moderate :: ustr where
  "phrase_commute_moderate = [36890, 21220, 36739, 20026, 20415, 21033]"
definition phrase_fallback :: ustr where
  "phrase_fallback = [32508, 21512, 26465, 20214, 19968, 33324]"
definition reason_separator :: ustr where
  "reason_separator = [65292]"

text \<open>\<^verbatim>\<open>sep.join(parts)\<close>.\<close>

fun py_join :: "'a list \<Rightarrow> 'a list list \<Rightarrow> 'a list" where
  "py_join sep [] = []"
| "py_join sep [p] = p"
| "py_join sep (p # q # ps) = p @ sep @ py_join sep (q # ps)"

definition reason_part :: "real \<Rightarrow> ustr \<Rightarrow> ustr \<Rightarrow> ustr list" where
  "reason_part score strong moderate =
     (if score \<ge> b64 0.8 then [strong] else if score \<ge> b64 0.6 then [moderate] else [])"

definition recommendation_reason_of :: "real \<Rightarrow> real \<Rightarrow> real \<Rightarrow> real \<Rightarrow> ustr" where
  "recommendation_reason_of b a s c =
     (let reason_parts =
            reason_part b phrase_budget_strong phrase_budget_moderate
            @ reason_part a phrase_area_strong phrase_area_moderate
            @ reason_part s phrase_school_strong phrase_school_moderate
            @ reason_part c phrase_commute_strong phrase_commute_moderate;
          reason_parts = (if reason_parts = [] then [phrase_fallback] else reason_parts)
      in py_join reason_separator reason_parts)"

text \<open>
  \<^verbatim>\<open>calculate_matching_score(property_info, requirements)\<close>. The steps are in the
  order of the source, so the first exception of the source is the one returned: the
  two parsing blocks, then for each criterion the key lookup and the scorer, and the
  lookup of \<^verbatim>\<open>property_id\<close> last. The total is the sum of the four
  products, each rounded, added from the left.
\<close>


definition calculate_matching_score ::
  "matching_agent \<Rightarrow> listing \<Rightarrow> requirements \<Rightarrow> py_error + matching_score" where
  "calculate_matching_score ag property_info reqs =
     py_bind (parse_budget (get_or_empty (req_budget reqs))) (\<lambda>(budget_min, budget_max).
     py_bind (parse_commute (get_or_empty (req_commute reqs))) (\<lambda>max_commute_time.
     py_bind (py_getitem (price property_info)) (\<lambda>property_price.
     py_bind (calculate_budget_score property_price budget_min budget_max) (\<lambda>b.
     py_bind (py_getitem (area property_info)) (\<lambda>property_area.
     py_bind (Inr (b64 (calculate_area_score property_area
                          (get_or_empty (req_area reqs))))) (\<lambda>a.
     py_bind (py_getitem (school_district property_info)) (\<lambda>property_school.
     py_bind (Inr (calculate_school_score property_school
                     (get_or_empty (req_school_district reqs)))) (\<lambda>s.
     py_bind (py_getitem (commute_time property_info)) (\<lambda>property_commute.
     py_bind (calculate_commute_score property_commute max_commute_time) (\<lambda>c.
     py_bind (py_getitem (property_id property_info)) (\<lambda>pid.
       Inr \<lparr>score_property_id = pid,
            total_score = fadd (fadd (fadd (fmul b (budget_weight ag))
                                            (fmul a (area_weight ag)))
                                      (fmul s (school_weight ag)))
                               (fmul c (commute_weight ag)),
            budget_score = b, area_score = a, school_score = s, commute_score = c,
            recommendation_reason = recommendation_reason_of b a s c\<rparr>)))))))))))"

subsection \<open>Ranking\<close>

record property_recommendation =
  property_info :: listing
  matching_score :: matching_score
  rank :: int

text \<open>The scoring loop of \<^verbatim>\<open>recommend_properties\<close>: it stops at the first listing
  whose scoring raises.\<close>

fun score_properties ::
  "matching_agent \<Rightarrow> listing list \<Rightarrow> requirements \<Rightarrow> py_error + (listing \<times> matching_score) list" where
  "score_properties ag [] reqs = Inr []"
| "score_properties ag (prop # props) reqs =
     py_bind (calculate_matching_score ag prop reqs) (\<lambda>ms.
     py_bind (score_properties ag props reqs) (\<lambda>rest. Inr ((prop, ms) # rest)))"

text \<open>
  \<^verbatim>\<open>list.sort(key=..., reverse=True)\<close>: Python's sort is stable, and with
  \<^verbatim>\<open>reverse=True\<close> elements of equal key still keep their original order. The
  model is the stable insertion sort of the library on the negated key.
\<close>

definition sort_by_total_desc ::
  "(listing \<times> matching_score) list \<Rightarrow> (listing \<times> matching_score) list" where
  "sort_by_total_desc scored = sort_key (\<lambda>x. - total_score (snd x)) scored"

text \<open>\<^verbatim>\<open>xs[:k]\<close>: a negative \<open>k\<close> counts from the end.\<close>

definition py_slice_to :: "'a list \<Rightarrow> int \<Rightarrow> 'a list" where
  "py_slice_to xs k =
     (if k \<ge> 0 then take (nat k) xs else take (nat (int (length xs) + k)) xs)"

text \<open>\<^verbatim>\<open>enumerate(xs, start)\<close>.\<close>

fun py_enumerate :: "int \<Rightarrow> 'a list \<Rightarrow> (int \<times> 'a) list" where
  "py_enumerate start [] = []"
| "py_enumerate start (x # xs) = (start, x) # py_enumerate (start + 1) xs"

text \<open>\<^verbatim>\<open>recommend_properties(properties, requirements, top_k)\<close>: any exception in
  the body is caught and the result is then the empty list.\<close>

definition recommend_properties ::
  "matching_agent \<Rightarrow> listing list \<Rightarrow> requirements \<Rightarrow> int \<Rightarrow> property_recommendation list" where
  "recommend_properties ag properties reqs top_k =
     (case score_properties ag properties reqs of
        Inl e \<Rightarrow> []
      | Inr scored_properties \<Rightarrow>
          map (\<lambda>(r, (prop, score)).
                 \<lparr>property_info = prop, matching_score = score, rank = r\<rparr>)
              (py_enumerate 1 (py_slice_to (sort_by_total_desc scored_properties) top_k)))"


subsection \<open>The summary\<close>

text \<open>
  The report of \<^verbatim>\<open>generate_recommendation_summary\<close>. The no-match message is
  U+672A U+627E U+5230 U+5408 U+9002 U+7684 U+623F U+6E90 U+63A8 U+8350.
\<close>

record top_recommendation =
  top_property_id :: ustr
  top_address :: ustr
  top_price :: real
  top_matching_score :: real
  top_reason :: ustr

record summary_entry =
  entry_rank :: int
  entry_property_id :: ustr
  entry_address :: ustr
  entry_price :: real
  entry_area :: ustr
  entry_school_district :: ustr
  entry_commute_time :: int
  entry_matching_score :: real
  breakdown_budget :: real
  breakdown_area :: real
  breakdown_school :: real
  breakdown_commute :: real
  entry_reason :: ustr

record summary_report =
  total_recommendations :: nat
  average_matching_score :: real
  price_range_min :: real
  price_range_max :: real
  top_recommendation :: top_recommendation
  recommendations :: "summary_entry list"

datatype summary = NoRecommendations ustr | Report summary_report

definition message_no_recommendations :: ustr where
  "message_no_recommendations =
     [26410, 25214, 21040, 21512, 36866, 30340, 25151, 28304, 25512, 33616]"

text \<open>A comprehension whose body can raise: the first exception ends it.\<close>

fun py_map :: "('a \<Rightarrow> py_error + 'b) \<Rightarrow> 'a list \<Rightarrow> py_error + 'b list" where
  "py_map f [] = Inr []"
| "py_map f (x # xs) =
     py_bind (f x) (\<lambda>y. py_bind (py_map f xs) (\<lambda>ys. Inr (y # ys)))"

text \<open>
  One entry of the \<^verbatim>\<open>recommendations\<close> list, and the \<^verbatim>\<open>top_recommendation\<close>
  block. Python's \<^verbatim>\<open>round(x, 2)\<close> gives the float nearest to \<open>x\<close> rounded to two
  decimals; it is a function of \<open>x\<close> alone, and it is the parameter \<open>round2\<close> of the
  model. The average is \<^verbatim>\<open>sum(...) / total_count\<close>, with the scores added as floats
  from the left, starting from 0.
\<close>

definition summary_entry_of ::
  "(real \<Rightarrow> real) \<Rightarrow> property_recommendation \<Rightarrow> py_error + summary_entry" where
  "summary_entry_of round2 rec =
     py_bind (py_getitem (property_id (property_info rec))) (\<lambda>pid.
     py_bind (py_getitem (address (property_info rec))) (\<lambda>addr.
     py_bind (py_getitem (price (property_info rec))) (\<lambda>p.
     py_bind (py_getitem (area (property_info rec))) (\<lambda>a.
     py_bind (py_getitem (school_district (property_info rec))) (\<lambda>sd.
     py_bind (py_getitem (commute_time (property_info rec))) (\<lambda>ct.
       Inr \<lparr>entry_rank = rank rec, entry_property_id = pid, entry_address = addr,
            entry_price = p, entry_area = a, entry_school_district = sd,
            entry_commute_time = ct,
            entry_matching_score = round2 (total_score (matching_score rec)),
            breakdown_budget = round2 (budget_score (matching_score rec)),
            breakdown_area = round2 (area_score (matching_score rec)),
            breakdown_school = round2 (school_score (matching_score rec)),
            breakdown_commute = round2 (commute_score (matching_score rec)),
            entry_reason = recommendation_reason (matching_score rec)\<rparr>))))))"

definition top_recommendation_of ::
  "(real \<Rightarrow> real) \<Rightarrow> property_recommendation \<Rightarrow> py_error + top_recommendation" where
  "top_recommendation_of round2 rec =
     py_bind (py_getitem (property_id (property_info rec))) (\<lambda>pid.
     py_bind (py_getitem (address (property_info rec))) (\<lambda>addr.
     py_bind (py_getitem (price (property_info rec))) (\<lambda>p.
       Inr \<lparr>top_property_id = pid, top_address = addr, top_price = p,
            top_matching_score = round2 (total_score (matching_score rec)),
            top_reason = recommendation_reason (matching_score rec)\<rparr>)))"

definition generate_recommendation_summary ::
  "(real \<Rightarrow> real) \<Rightarrow> property_recommendation list \<Rightarrow> py_error + summary" where
  "generate_recommendation_summary round2 recs =
     (case recs of
        [] \<Rightarrow> Inr (NoRecommendations message_no_recommendations)
      | first # others \<Rightarrow>
          let total_count = length recs;
              avg_score = b64 (foldl fadd 0 (map (\<lambda>rec. total_score (matching_score rec)) recs)
                               / real total_count)
          in
          py_bind (py_map (\<lambda>rec. py_getitem (price (property_info rec))) recs) (\<lambda>prices.
          py_bind (top_recommendation_of round2 first) (\<lambda>top.
          py_bind (py_map (summary_entry_of round2) recs) (\<lambda>entries.
            Inr (Report \<lparr>total_recommendations = total_count,
                         average_matching_score = round2 avg_score,
                         price_range_min = foldl min (hd prices) (tl prices),
                         price_range_max = foldl max (hd prices) (tl prices),
                         top_recommendation = top,
                         recommendations = entries\<rparr>)))))"


subsection \<open>Example data\<close>

text \<open>
  The agent built with the default weights (\<^verbatim>\<open>MatchingAgent()\<close>): the floats of
  0.4, 0.2, 0.3 and 0.3 add up to 1.2000000000000002, and the stored weights are
  0.3333333333333333, 0.16666666666666666, 0.24999999999999994 and
  0.24999999999999994, written here as fractions. Then four listings of the mock
  inventory in \<^verbatim>\<open>property_agent/agent.py\<close> (P001, P002, P003, P005; the address is
  shortened to the area name), the requirements of the worked example (budget
  \<^verbatim>\<open>300-500\<close> followed by U+4E07, area Chaoyang, commute \<^verbatim>\<open>30\<close> followed by
  U+5206 U+949F), and the empty requirements that \<^verbatim>\<open>process_user_query\<close> passes on.
\<close>

definition default_agent :: matching_agent where
  "default_agent =
     \<lparr>budget_weight = 6004799503160661 / 18014398509481984,
      area_weight = 6004799503160661 / 36028797018963968,
      school_weight = 4503599627370495 / 18014398509481984,
      commute_weight = 4503599627370495 / 18014398509481984\<rparr>"

definition listing_P001 :: listing where
  "listing_P001 =
     \<lparr>property_id = Some [80, 48, 48, 49], price = Some 3500000, area = Some area_chaoyang,
      school_district = Some school_chaoyang_experimental, commute_time = Some 25,
      address = Some area_chaoyang\<rparr>"

definition listing_P002 :: listing where
  "listing_P002 =
     \<lparr>property_id = Some [80, 48, 48, 50], price = Some 4200000, area = Some area_haidian,
      school_district = Some school_zhongguancun_first, commute_time = Some 30,
      address = Some area_haidian\<rparr>"

definition listing_P003 :: listing where
  "listing_P003 =
     \<lparr>property_id = Some [80, 48, 48, 51], price = Some 2800000, area = Some area_fengtai,
      school_district = Some school_fengtai_fifth, commute_time = Some 35,
      address = Some area_fengtai\<rparr>"

definition listing_P005 :: listing where
  "listing_P005 =
     \<lparr>property_id = Some [80, 48, 48, 53], price = Some 3200000, area = Some area_chaoyang,
      school_district = Some school_chaoyang_foreign_language, commute_time = Some 28,
      address = Some area_chaoyang\<rparr>"

definition example_requirements :: requirements where
  "example_requirements =
     \<lparr>req_budget = Some [51, 48, 48, 45, 53, 48, 48, 19975], req_area = Some area_chaoyang,
      req_school_district = None, req_commute = Some [51, 48, 20998, 38047]\<rparr>"

definition empty_requirements :: requirements where
  "empty_requirements =
     \<lparr>req_budget = Some [], req_area = Some [], req_school_district = Some [],
      req_commute = Some []\<rparr>"


text \<open>
  The weights stored by \<^verbatim>\<open>MatchingAgent(2, 3, 1, 1)\<close> and by
  \<^verbatim>\<open>MatchingAgent(4, 3, 3, 3)\<close>: the floats nearest to 2/7, 3/7, 1/7, 1/7 and to
  4/13, 3/13, 3/13, 3/13.
\<close>

definition agent_2_3_1_1 :: matching_agent where
  "agent_2_3_1_1 =
     \<lparr>budget_weight = 2573485501354569 / 9007199254740992,
      area_weight = 7720456504063707 / 18014398509481984,
      school_weight = 2573485501354569 / 18014398509481984,
      commute_weight = 2573485501354569 / 18014398509481984\<rparr>"

definition agent_4_3_3_3 :: matching_agent where
  "agent_4_3_3_3 =
     \<lparr>budget_weight = 1385722962267845 / 4503599627370496,
      area_weight = 4157168886803535 / 18014398509481984,
      school_weight = 4157168886803535 / 18014398509481984,
      commute_weight = 4157168886803535 / 18014398509481984\<rparr>"

subsection \<open>Score range\<close>

definition unit_score :: "real \<Rightarrow> bool" where
  "unit_score x \<longleftrightarrow> 0 \<le> x \<and> x \<le> 1"

section \<open>Properties\<close>

subsection \<open>Exceptions as values\<close>

lemma py_bind_simps [simp]:
  "py_bind (Inl e) f = Inl e" "py_bind (Inr v) f = f v"
  by (simp_all add: py_bind_def)

lemma py_bind_Inr_iff:
  "py_bind r f = Inr y \<longleftrightarrow> (\<exists>v. r = Inr v \<and> f v = Inr y)"
  by (cases r) simp_all

lemma py_bind_Inl_iff:
  "py_bind r f = Inl e \<longleftrightarrow> r = Inl e \<or> (\<exists>v. r = Inr v \<and> f v = Inl e)"
  by (cases r) simp_all

lemmas literal_defs =
  area_chaoyang_def area_haidian_def area_dongcheng_def area_xicheng_def area_fengtai_def
  school_beijing_second_experimental_def school_zhongguancun_first_def
  school_chaoyang_experimental_def school_chaoyang_foreign_language_def
  school_fengtai_fifth_def school_fengtai_experimental_def

lemmas marker_defs = marker_wan_def char_dash_def marker_yinei_def marker_fenzhong_def

lemmas float_defs =
  fadd_def fsub_def fmul_def py_div_def fl_def float_overflows_def float_times_def
  int_to_float_def int_true_div_def

lemmas builtin_defs =
  py_float_def float_transliterate_def float_unsigned_def float_numeral_def
  float_exponent_def float_negate_def strip_ascii_def ascii_space_def ascii_digit_def
  ascii_lower_def py_strip_def py_isspace_def is_digit_def digit_value_def
  decimal_digit_blocks_def digits_value_def py_int_def int_max_str_digits_def
  re_findall_digits_def

lemmas example_defs =
  default_agent_def listing_P001_def listing_P002_def listing_P003_def listing_P005_def
  example_requirements_def empty_requirements_def

lemmas scoring_defs =
  calculate_matching_score_def get_or_empty_def parse_budget_def parse_commute_def
  py_getitem_def calculate_area_score_def calculate_school_score_def
  area_similarity_map_def school_quality_map_def school_quality_def
  budget_ratio_def budget_decay_def

lemmas reason_defs = recommendation_reason_of_def reason_part_def

subsection \<open>Rounding to binary64\<close>

text \<open>
  The exponent found by \<open>floor_log2\<close> is the binary exponent, which gives \<open>b64\<close> in
  closed form on each binade: for \<open>2 ^ 52 \<le> \<bar>x\<bar> * 2 ^ k < 2 ^ 53\<close> the result is
  \<open>x * 2 ^ k\<close> rounded to an integer, over \<open>2 ^ k\<close>. The two introduction rules
  evaluate \<open>b64\<close> at a given number, away from a tie and at a tie.
\<close>

declare floor_log2_up.simps [simp del] floor_log2_down.simps [simp del]

lemma floor_log2_up_bounds:
  "1 \<le> x \<Longrightarrow> 0 \<le> floor_log2_up x \<and> 2 powi floor_log2_up x \<le> x \<and> x < 2 powi (floor_log2_up x + 1)"
proof (induction x rule: floor_log2_up.induct)
  case (1 x)
  show ?case
  proof (cases "x < 2")
    case True
    then show ?thesis using "1.prems" by (simp add: floor_log2_up.simps [of x])
  next
    case False
    then have "1 \<le> x / 2" by simp
    note ih = "1.IH" [OF False this]
    define e where "e = floor_log2_up (x / 2)"
    have e: "0 \<le> e" "2 powi e \<le> x / 2" "x / 2 < 2 powi (e + 1)" using ih by (simp_all add: e_def)
    have up: "floor_log2_up x = e + 1" using False by (simp add: floor_log2_up.simps [of x] e_def)
    have "(2::real) powi (e + 1) = 2 powi e * 2" by (simp add: power_int_add)
    moreover have "(2::real) powi (e + 1 + 1) = 2 powi (e + 1) * 2" by (simp add: power_int_add)
    ultimately show ?thesis using e unfolding up by simp
  qed
qed

lemma floor_log2_down_bounds:
  "0 < x \<Longrightarrow> x < 1 \<Longrightarrow> 2 powi floor_log2_down x \<le> x \<and> x < 2 powi (floor_log2_down x + 1)"
proof (induction x rule: floor_log2_down.induct)
  case (1 x)
  have rec: "floor_log2_down x = floor_log2_down (2 * x) - 1"
    using "1.prems" by (simp add: floor_log2_down.simps [of x])
  have c: "\<not> (x \<le> 0 \<or> 1 \<le> x)" using "1.prems" by simp
  show ?case
  proof (cases "2 * x < 1")
    case True
    have "0 < 2 * x" using "1.prems" by simp
    note ih = "1.IH" [OF c this True]
    define e where "e = floor_log2_down (2 * x)"
    have e: "2 powi e \<le> 2 * x" "2 * x < 2 powi (e + 1)" using ih by (simp_all add: e_def)
    have "(2::real) powi e = 2 powi (e - 1) * 2" by (simp add: power_int_diff)
    moreover have "(2::real) powi (e + 1) = 2 powi (e - 1 + 1) * 2" by (simp add: power_int_add)
    ultimately show ?thesis using e unfolding rec e_def [symmetric] by simp
  next
    case False
    then have "floor_log2_down (2 * x) = 0" by (simp add: floor_log2_down.simps [of "2 * x"])
    then have "floor_log2_down x = - 1" using rec by simp
    then show ?thesis using False "1.prems" by (simp add: power_int_minus)
  qed
qed

lemma floor_log2_bounds:
  assumes "0 < x"
  shows "2 powi floor_log2 x \<le> x \<and> x < 2 powi (floor_log2 x + 1)"
  using assms floor_log2_up_bounds [of x] floor_log2_down_bounds [of x]
  by (cases "1 \<le> x") (simp_all add: floor_log2_def)

lemma floor_log2_unique:
  assumes "2 powi e \<le> x" and "x < 2 powi (e + 1)"
  shows "floor_log2 x = e"
proof -
  have "(0::real) < 2 powi e" by simp
  then have pos: "0 < x" using assms(1) by linarith
  note b = floor_log2_bounds [OF pos]
  define f where "f = floor_log2 x"
  have lt1: "(2::real) powi e < 2 powi (f + 1)" using assms(1) b by (simp add: f_def)
  have "e < f + 1"
  proof (rule ccontr)
    assume "\<not> e < f + 1"
    then have "(2::real) powi (f + 1) \<le> 2 powi e" by (intro power_int_increasing) simp_all
    then show False using lt1 by simp
  qed
  moreover have lt2: "(2::real) powi f < 2 powi (e + 1)" using assms(2) b by (simp add: f_def)
  have "f < e + 1"
  proof (rule ccontr)
    assume "\<not> f < e + 1"
    then have "(2::real) powi (e + 1) \<le> 2 powi f" by (intro power_int_increasing) simp_all
    then show False using lt2 by simp
  qed
  ultimately show ?thesis by (simp add: f_def)
qed

lemma round_half_even_nearest:
  assumes "\<bar>r - of_int m\<bar> < 1 / 2"
  shows "round_half_even r = m"
proof -
  have lo: "of_int m - 1 / 2 < r" and hi: "r < of_int m + 1 / 2" using assms by linarith+
  show ?thesis
  proof (cases "of_int m \<le> r")
    case True
    then have f: "\<lfloor>r\<rfloor> = m" using hi by (intro floor_unique) linarith+
    then show ?thesis using hi by (simp add: round_half_even_def Let_def)
  next
    case False
    have "of_int (m - 1) \<le> r" using lo by simp
    moreover have "r < of_int (m - 1) + 1" using False by simp
    ultimately have f: "\<lfloor>r\<rfloor> = m - 1" by (rule floor_unique)
    have "1 / 2 < r - of_int (m - 1)" using lo by simp
    then show ?thesis using f by (simp add: round_half_even_def Let_def)
  qed
qed

lemma round_half_even_tie:
  assumes "r = of_int m + 1 / 2"
  shows "round_half_even r = (if even m then m else m + 1)"
proof -
  have f: "\<lfloor>r\<rfloor> = m" unfolding assms by (intro floor_unique) simp_all
  show ?thesis using f assms by (simp add: round_half_even_def Let_def)
qed

lemma round_half_even_of_int [simp]: "round_half_even (of_int m) = m"
  by (rule round_half_even_nearest) simp

lemma b64_ulp:
  assumes "x \<noteq> 0" and "2 ^ 52 \<le> \<bar>x\<bar> * 2 ^ k" and "\<bar>x\<bar> * 2 ^ k < 2 ^ 53" and "k \<le> 1074"
  shows "b64 x = of_int (round_half_even (x * 2 ^ k)) / 2 ^ k"
proof -
  define e where "e = 52 - int k"
  have p: "(2::real) powi e = 2 ^ 52 / 2 ^ k"
    by (simp add: e_def power_int_diff)
  have p1: "(2::real) powi (e + 1) = 2 ^ 53 / 2 ^ k"
    by (simp add: e_def power_int_diff power_int_add)
  have "2 powi e \<le> \<bar>x\<bar>" unfolding p using assms(2) by (simp add: field_simps)
  moreover have "\<bar>x\<bar> < 2 powi (e + 1)" unfolding p1 using assms(3) by (simp add: field_simps)
  ultimately have fl: "floor_log2 \<bar>x\<bar> = e" by (rule floor_log2_unique)
  have "- 1022 \<le> e" using assms(4) by (simp add: e_def)
  then have m: "max (floor_log2 \<bar>x\<bar>) (- 1022) = e" using fl by simp
  have u: "(2::real) powi (e - 52) = 1 / 2 ^ k" by (simp add: e_def power_int_minus field_simps)
  show ?thesis using assms(1) by (simp add: b64_def m u Let_def)
qed

lemma b64_eqI:
  assumes "x \<noteq> 0" and "2 ^ 52 \<le> \<bar>x\<bar> * 2 ^ k" and "\<bar>x\<bar> * 2 ^ k < 2 ^ 53" and "k \<le> 1074"
    and "\<bar>x * 2 ^ k - of_int m\<bar> < 1 / 2" and "v = of_int m / 2 ^ k"
  shows "b64 x = v"
  using b64_ulp [OF assms(1-4)] round_half_even_nearest [OF assms(5)] assms(6) by simp

lemma b64_tieI:
  assumes "x \<noteq> 0" and "2 ^ 52 \<le> \<bar>x\<bar> * 2 ^ k" and "\<bar>x\<bar> * 2 ^ k < 2 ^ 53" and "k \<le> 1074"
    and "x * 2 ^ k = of_int m + 1 / 2" and "v = of_int (if even m then m else m + 1) / 2 ^ k"
  shows "b64 x = v"
  using b64_ulp [OF assms(1-4)] round_half_even_tie [OF assms(5)] assms(6) by simp

lemma b64_0 [simp]: "b64 0 = 0"
  by (simp add: b64_def)

lemma round_half_even_minus: "round_half_even (- r) = - round_half_even r"
proof (cases "r = of_int \<lfloor>r\<rfloor>")
  case True
  then obtain n where "r = of_int n" ..
  then show ?thesis using round_half_even_of_int [of "- n"] by simp
next
  case False
  define f where "f = \<lfloor>r\<rfloor>"
  have lo: "of_int f < r" using False of_int_floor_le [of r] unfolding f_def by linarith
  have hi: "r < of_int f + 1" by (simp add: f_def)
  have nf: "\<lfloor>- r\<rfloor> = - f - 1" using lo hi by (intro floor_unique) simp_all
  consider "r - of_int f < 1 / 2" | "1 / 2 < r - of_int f" | "r - of_int f = 1 / 2" by linarith
  then show ?thesis
  proof cases
    case 1
    then have "round_half_even r = f" by (simp add: round_half_even_def Let_def f_def)
    moreover have "round_half_even (- r) = - f" using 1 nf by (simp add: round_half_even_def Let_def)
    ultimately show ?thesis by simp
  next
    case 2
    then have "round_half_even r = f + 1" by (simp add: round_half_even_def Let_def f_def)
    moreover have "round_half_even (- r) = - f - 1" using 2 nf by (simp add: round_half_even_def Let_def)
    ultimately show ?thesis by simp
  next
    case 3
    then have a: "round_half_even r = (if even f then f else f + 1)"
      by (simp add: round_half_even_def Let_def f_def)
    have "- r - of_int (- f - 1) = 1 / 2" using 3 by simp
    then have b: "round_half_even (- r) = (if even (- f - 1) then - f - 1 else - f)"
      using nf by (simp add: round_half_even_def Let_def)
    show ?thesis unfolding a b by simp
  qed
qed

lemma b64_minus [simp]: "b64 (- x) = - b64 x"
  by (simp add: b64_def Let_def round_half_even_minus)

text \<open>The values of \<open>b64\<close> that the examples below need, each by one of the two
  rules.\<close>

lemma b64_value_1: "b64 (21634570243895115118877068038417 / 649037107316853453566312041152512) = 4803839602528529 / 144115188075855872"
  by (rule b64_eqI [where k = 57 and m = 4803839602528529]) simp_all

lemma b64_value_2: "b64 (6004799503160661 / 72057594037927936) = 6004799503160661 / 72057594037927936"
  by (rule b64_eqI [where k = 56 and m = 6004799503160661]) simp_all

lemma b64_value_3: "b64 (16902008003043053432423144139435 / 162259276829213363391578010288128) = 938249922368853 / 9007199254740992"
  by (rule b64_eqI [where k = 56 and m = 7505999378950824]) simp_all

lemma b64_value_4: "b64 (18930248963408223477217620848367 / 162259276829213363391578010288128) = 8406719304424925 / 72057594037927936"
  by (rule b64_eqI [where k = 56 and m = 8406719304424925]) simp_all

lemma b64_value_5: "b64 (4503599627370495 / 36028797018963968) = 4503599627370495 / 36028797018963968"
  by (rule b64_eqI [where k = 56 and m = 9007199254740990]) simp_all

lemma b64_value_6: "b64 (1 / 7) = 2573485501354569 / 18014398509481984"
  by (rule b64_eqI [where k = 55 and m = 5146971002709138]) simp_all

lemma b64_value_7: "b64 (11831405602130136952336238160555 / 81129638414606681695789005144064) = 5254199565265577 / 36028797018963968"
  by (rule b64_eqI [where k = 55 and m = 5254199565265577]) simp_all

lemma b64_value_8: "b64 (3602879701896397 / 21617278211378384) = 6004799503160661 / 36028797018963968"
  by (rule b64_eqI [where k = 55 and m = 6004799503160661]) simp_all

lemma b64_value_9: "b64 (6004799503160661 / 36028797018963968) = 6004799503160661 / 36028797018963968"
  by (rule b64_eqI [where k = 55 and m = 6004799503160661]) simp_all

lemma b64_value_10: "b64 (1 / 6) = 6004799503160661 / 36028797018963968"
  by (rule b64_eqI [where k = 55 and m = 6004799503160661]) simp_all

lemma b64_value_11: "b64 (1 / 5) = 3602879701896397 / 18014398509481984"
  by (rule b64_eqI [where k = 55 and m = 7205759403792794]) simp_all

lemma b64_value_12: "b64 (33804016006086111368445915649365 / 162259276829213363391578010288128) = 7505999378950825 / 36028797018963968"
  by (rule b64_eqI [where k = 55 and m = 7505999378950825]) simp_all

lemma b64_value_13: "b64 (3 / 13) = 4157168886803535 / 18014398509481984"
  by (rule b64_eqI [where k = 55 and m = 8314337773607070]) simp_all

lemma b64_value_14: "b64 (4157168886803535 / 18014398509481984) = 4157168886803535 / 18014398509481984"
  by (rule b64_eqI [where k = 55 and m = 8314337773607070]) simp_all

lemma b64_value_15: "b64 (4503599627370495 / 18014398509481984) = 4503599627370495 / 18014398509481984"
  by (rule b64_eqI [where k = 55 and m = 9007199254740990]) simp_all

lemma b64_value_16: "b64 (5404319552844595 / 21617278211378384) = 4503599627370495 / 18014398509481984"
  by (rule b64_eqI [where k = 55 and m = 9007199254740990]) simp_all

lemma b64_value_17: "b64 (18014398509481983 / 72057594037927936) = 1 / 4"
  by (rule b64_tieI [where k = 55 and m = 9007199254740991]) simp_all

lemma b64_value_18: "b64 (2 / 7) = 2573485501354569 / 9007199254740992"
  by (rule b64_eqI [where k = 54 and m = 5146971002709138]) simp_all

lemma b64_value_19: "b64 (3 / 10) = 5404319552844595 / 18014398509481984"
  by (rule b64_eqI [where k = 54 and m = 5404319552844595]) simp_all

lemma b64_value_20: "b64 (4 / 13) = 1385722962267845 / 4503599627370496"
  by (rule b64_eqI [where k = 54 and m = 5542891849071380]) simp_all

lemma b64_value_21: "b64 (1385722962267845 / 4503599627370496) = 1385722962267845 / 4503599627370496"
  by (rule b64_eqI [where k = 54 and m = 5542891849071380]) simp_all

lemma b64_value_22: "b64 (25240331951210966637889995518043 / 81129638414606681695789005144064) = 1401119884070821 / 4503599627370496"
  by (rule b64_eqI [where k = 54 and m = 5604479536283284]) simp_all

lemma b64_value_23: "b64 (3602879701896397 / 10808639105689192) = 6004799503160661 / 18014398509481984"
  by (rule b64_eqI [where k = 54 and m = 6004799503160661]) simp_all

lemma b64_value_24: "b64 (6004799503160661 / 18014398509481984) = 6004799503160661 / 18014398509481984"
  by (rule b64_eqI [where k = 54 and m = 6004799503160661]) simp_all

lemma b64_value_25: "b64 (49639675892794801 / 144115188075855872) = 3102479743299675 / 9007199254740992"
  by (rule b64_eqI [where k = 54 and m = 6204959486599350]) simp_all

lemma b64_value_26: "b64 (13510798882111487 / 36028797018963968) = 3 / 8"
  by (rule b64_tieI [where k = 54 and m = 6755399441055743]) simp_all

lemma b64_value_27: "b64 (900719925474099 / 2251799813685248) = 900719925474099 / 2251799813685248"
  by (rule b64_eqI [where k = 54 and m = 7205759403792792]) simp_all

lemma b64_value_28: "b64 (2 / 5) = 3602879701896397 / 9007199254740992"
  by (rule b64_eqI [where k = 54 and m = 7205759403792794]) simp_all

lemma b64_value_29: "b64 (3752999689475413 / 9007199254740992) = 3752999689475413 / 9007199254740992"
  by (rule b64_eqI [where k = 54 and m = 7505999378950826]) simp_all

lemma b64_value_30: "b64 (5 / 12) = 7505999378950827 / 18014398509481984"
  by (rule b64_eqI [where k = 54 and m = 7505999378950827]) simp_all

lemma b64_value_31: "b64 (3 / 7) = 7720456504063707 / 18014398509481984"
  by (rule b64_eqI [where k = 54 and m = 7720456504063707]) simp_all

lemma b64_value_32: "b64 (32425917317067569 / 72057594037927936) = 2026619832316723 / 4503599627370496"
  by (rule b64_eqI [where k = 54 and m = 8106479329266892]) simp_all

lemma b64_value_33: "b64 (16913518600569195 / 36028797018963968) = 4228379650142299 / 9007199254740992"
  by (rule b64_tieI [where k = 54 and m = 8456759300284597]) simp_all

lemma b64_value_34: "b64 (4315949642896725 / 9007199254740992) = 4315949642896725 / 9007199254740992"
  by (rule b64_eqI [where k = 54 and m = 8631899285793450]) simp_all

lemma b64_value_35: "b64 (18014398509481983 / 36028797018963968) = 1 / 2"
  by (rule b64_tieI [where k = 54 and m = 9007199254740991]) simp_all

lemma b64_value_36: "b64 (1 / 2) = 1 / 2"
  by (rule b64_eqI [where k = 53 and m = 4503599627370496]) simp_all

lemma b64_value_37: "b64 (18764998447377065 / 36028797018963968) = 2345624805922133 / 4503599627370496"
  by (rule b64_eqI [where k = 53 and m = 4691249611844266]) simp_all

lemma b64_value_38: "b64 (9700060735874915 / 18014398509481984) = 2425015183968729 / 4503599627370496"
  by (rule b64_tieI [where k = 53 and m = 4850030367937457]) simp_all

lemma b64_value_39: "b64 (20716558285904279 / 36028797018963968) = 2589569785738035 / 4503599627370496"
  by (rule b64_eqI [where k = 53 and m = 5179139571476070]) simp_all

lemma b64_value_40: "b64 (10508399130531157 / 18014398509481984) = 2627099782632789 / 4503599627370496"
  by (rule b64_tieI [where k = 53 and m = 5254199565265578]) simp_all

lemma b64_value_41: "b64 (7 / 12) = 5254199565265579 / 9007199254740992"
  by (rule b64_eqI [where k = 53 and m = 5254199565265579]) simp_all

lemma b64_value_42: "b64 (5404319552844595 / 9007199254740992) = 5404319552844595 / 9007199254740992"
  by (rule b64_eqI [where k = 53 and m = 5404319552844595]) simp_all

lemma b64_value_43: "b64 (3 / 5) = 5404319552844595 / 9007199254740992"
  by (rule b64_eqI [where k = 53 and m = 5404319552844595]) simp_all

lemma b64_value_44: "b64 (10808639105689191 / 18014398509481984) = 1351079888211149 / 2251799813685248"
  by (rule b64_tieI [where k = 53 and m = 5404319552844595]) simp_all

lemma b64_value_45: "b64 (22517998136852479 / 36028797018963968) = 5 / 8"
  by (rule b64_eqI [where k = 53 and m = 5629499534213120]) simp_all

lemma b64_value_46: "b64 (24419517979520021 / 36028797018963968) = 6104879494880005 / 9007199254740992"
  by (rule b64_eqI [where k = 53 and m = 6104879494880005]) simp_all

lemma b64_value_47: "b64 (7 / 10) = 3152519739159347 / 4503599627370496"
  by (rule b64_eqI [where k = 53 and m = 6305039478318694]) simp_all

lemma b64_value_48: "b64 (12867427506772845 / 18014398509481984) = 3216856876693211 / 4503599627370496"
  by (rule b64_tieI [where k = 53 and m = 6433713753386422]) simp_all

lemma b64_value_49: "b64 (3 / 4) = 3 / 4"
  by (rule b64_eqI [where k = 53 and m = 6755399441055744]) simp_all

lemma b64_value_50: "b64 (13857229622678451 / 18014398509481984) = 3464307405669613 / 4503599627370496"
  by (rule b64_tieI [where k = 53 and m = 6928614811339225]) simp_all

lemma b64_value_51: "b64 (39 / 50) = 3512807709348987 / 4503599627370496"
  by (rule b64_eqI [where k = 53 and m = 7025615418697974]) simp_all

lemma b64_value_52: "b64 (14411518807585587 / 18014398509481984) = 3602879701896397 / 4503599627370496"
  by (rule b64_tieI [where k = 53 and m = 7205759403792793]) simp_all

lemma b64_value_53: "b64 (4 / 5) = 3602879701896397 / 4503599627370496"
  by (rule b64_eqI [where k = 53 and m = 7205759403792794]) simp_all

lemma b64_value_54: "b64 (14411518807585589 / 18014398509481984) = 3602879701896397 / 4503599627370496"
  by (rule b64_tieI [where k = 53 and m = 7205759403792794]) simp_all

lemma b64_value_55: "b64 (14861878770322635 / 18014398509481984) = 3715469692580659 / 4503599627370496"
  by (rule b64_tieI [where k = 53 and m = 7430939385161317]) simp_all

lemma b64_value_56: "b64 (30023997515803307 / 36028797018963968) = 7505999378950827 / 9007199254740992"
  by (rule b64_eqI [where k = 53 and m = 7505999378950827]) simp_all

lemma b64_value_57: "b64 (17 / 20) = 7656119366529843 / 9007199254740992"
  by (rule b64_eqI [where k = 53 and m = 7656119366529843]) simp_all

lemma b64_value_58: "b64 (15440913008127413 / 18014398509481984) = 3860228252031853 / 4503599627370496"
  by (rule b64_tieI [where k = 53 and m = 7720456504063706]) simp_all

lemma b64_value_59: "b64 (15762598695796735 / 18014398509481984) = 7 / 8"
  by (rule b64_tieI [where k = 53 and m = 7881299347898367]) simp_all

lemma b64_value_60: "b64 (22 / 25) = 7926335344172073 / 9007199254740992"
  by (rule b64_eqI [where k = 53 and m = 7926335344172073]) simp_all

lemma b64_value_61: "b64 (9 / 10) = 8106479329266893 / 9007199254740992"
  by (rule b64_eqI [where k = 53 and m = 8106479329266893]) simp_all

lemma b64_value_62: "b64 (16212958658533787 / 18014398509481984) = 4053239664633447 / 4503599627370496"
  by (rule b64_tieI [where k = 53 and m = 8106479329266893]) simp_all

lemma b64_value_63: "b64 (14 / 15) = 4203359652212463 / 4503599627370496"
  by (rule b64_eqI [where k = 53 and m = 8406719304424926]) simp_all

lemma b64_value_64: "b64 (19 / 20) = 4278419646001971 / 4503599627370496"
  by (rule b64_eqI [where k = 53 and m = 8556839292003942]) simp_all

lemma b64_value_65: "b64 (18014398509481981 / 18014398509481984) = 4503599627370495 / 4503599627370496"
  by (rule b64_tieI [where k = 53 and m = 9007199254740990]) simp_all

lemma b64_value_66: "b64 (1) = 1"
  by (rule b64_eqI [where k = 52 and m = 4503599627370496]) simp_all

lemma b64_value_67: "b64 (18014398509481985 / 18014398509481984) = 1"
  by (rule b64_eqI [where k = 52 and m = 4503599627370496]) simp_all

lemma b64_value_68: "b64 (18014398509481987 / 18014398509481984) = 4503599627370497 / 4503599627370496"
  by (rule b64_eqI [where k = 52 and m = 4503599627370497]) simp_all

lemma b64_value_69: "b64 (21617278211378383 / 18014398509481984) = 1351079888211149 / 1125899906842624"
  by (rule b64_eqI [where k = 52 and m = 5404319552844596]) simp_all

lemma b64_value_70: "b64 (7 / 5) = 3152519739159347 / 2251799813685248"
  by (rule b64_eqI [where k = 52 and m = 6305039478318694]) simp_all

lemma b64_value_71: "b64 (3) = 3"
  by (rule b64_eqI [where k = 51 and m = 6755399441055744]) simp_all

lemma b64_value_72: "b64 (4) = 4"
  by (rule b64_eqI [where k = 50 and m = 4503599627370496]) simp_all

lemma b64_value_73: "b64 (5) = 5"
  by (rule b64_eqI [where k = 50 and m = 5629499534213120]) simp_all

lemma b64_value_74: "b64 (6) = 6"
  by (rule b64_eqI [where k = 50 and m = 6755399441055744]) simp_all

lemma b64_value_75: "b64 (7) = 7"
  by (rule b64_eqI [where k = 50 and m = 7881299347898368]) simp_all

lemma b64_value_76: "b64 (10) = 10"
  by (rule b64_eqI [where k = 49 and m = 5629499534213120]) simp_all

lemma b64_value_77: "b64 (13) = 13"
  by (rule b64_eqI [where k = 49 and m = 7318349394477056]) simp_all

lemma b64_value_78: "b64 (25) = 25"
  by (rule b64_eqI [where k = 48 and m = 7036874417766400]) simp_all

lemma b64_value_79: "b64 (30) = 30"
  by (rule b64_eqI [where k = 48 and m = 8444249301319680]) simp_all

lemma b64_value_80: "b64 (35) = 35"
  by (rule b64_eqI [where k = 47 and m = 4925812092436480]) simp_all

lemma b64_value_81: "b64 (100) = 100"
  by (rule b64_eqI [where k = 46 and m = 7036874417766400]) simp_all

lemma b64_value_82: "b64 (6404 / 25) = 4506414377137603 / 17592186044416"
  by (rule b64_eqI [where k = 44 and m = 4506414377137603]) simp_all

lemma b64_value_83: "b64 (300) = 300"
  by (rule b64_eqI [where k = 44 and m = 5277655813324800]) simp_all

lemma b64_value_84: "b64 (500) = 500"
  by (rule b64_eqI [where k = 44 and m = 8796093022208000]) simp_all

lemma b64_value_85: "b64 (1000000) = 1000000"
  by (rule b64_eqI [where k = 33 and m = 8589934592000000]) simp_all

lemma b64_value_86: "b64 (2000000) = 2000000"
  by (rule b64_eqI [where k = 32 and m = 8589934592000000]) simp_all

lemma b64_value_87: "b64 (2816508985711001875 / 1099511627776) = 5500994112716801 / 2147483648"
  by (rule b64_eqI [where k = 31 and m = 5500994112716801]) simp_all

lemma b64_value_88: "b64 (3000000) = 3000000"
  by (rule b64_eqI [where k = 31 and m = 6442450944000000]) simp_all

lemma b64_value_89: "b64 (5000000) = 5000000"
  by (rule b64_eqI [where k = 30 and m = 5368709120000000]) simp_all

lemma b64_value_90: "b64 (7000000) = 7000000"
  by (rule b64_eqI [where k = 30 and m = 7516192768000000]) simp_all

lemmas b64_values =
  b64_value_1 b64_value_2 b64_value_3 b64_value_4 b64_value_5 b64_value_6 b64_value_7 b64_value_8 b64_value_9 b64_value_10 b64_value_11 b64_value_12 b64_value_13 b64_value_14 b64_value_15 b64_value_16 b64_value_17 b64_value_18 b64_value_19 b64_value_20 b64_value_21 b64_value_22 b64_value_23 b64_value_24 b64_value_25 b64_value_26 b64_value_27 b64_value_28 b64_value_29 b64_value_30 b64_value_31 b64_value_32 b64_value_33 b64_value_34 b64_value_35 b64_value_36 b64_value_37 b64_value_38 b64_value_39 b64_value_40 b64_value_41 b64_value_42 b64_value_43 b64_value_44 b64_value_45 b64_value_46 b64_value_47 b64_value_48 b64_value_49 b64_value_50 b64_value_51 b64_value_52 b64_value_53 b64_value_54 b64_value_55 b64_value_56 b64_value_57 b64_value_58 b64_value_59 b64_value_60 b64_value_61 b64_value_62 b64_value_63 b64_value_64 b64_value_65 b64_value_66 b64_value_67 b64_value_68 b64_value_69 b64_value_70 b64_value_71 b64_value_72 b64_value_73 b64_value_74 b64_value_75 b64_value_76 b64_value_77 b64_value_78 b64_value_79 b64_value_80 b64_value_81 b64_value_82 b64_value_83 b64_value_84 b64_value_85 b64_value_86 b64_value_87 b64_value_88 b64_value_89 b64_value_90

lemma matching_agent_init_default:
  "matching_agent_init (b64 0.4) (b64 0.2) (b64 0.3) (b64 0.3) = Inr default_agent"
  by (simp add: matching_agent_init_def default_agent_def float_defs b64_values)

subsection \<open>Substring search\<close>

lemma starts_with_iff: "starts_with s p \<longleftrightarrow> (\<exists>r. s = p @ r)"
  by (induction s p rule: starts_with.induct) auto

lemma py_in_Nil [simp]: "py_in [] s"
  by (cases s) simp_all

text \<open>\<open>py_in\<close> is the substring relation: \<open>sub\<close> occurs in \<open>s\<close> at some position.\<close>

lemma py_in_iff: "py_in sub s \<longleftrightarrow> (\<exists>ps ss. s = ps @ sub @ ss)"
proof (induction s)
  case Nil
  then show ?case by auto
next
  case (Cons c cs)
  show ?case
  proof
    assume "py_in sub (c # cs)"
    then consider "starts_with (c # cs) sub" | "py_in sub cs" by auto
    then show "\<exists>ps ss. c # cs = ps @ sub @ ss"
    proof cases
      case 1
      then obtain r where "c # cs = sub @ r" by (auto simp: starts_with_iff)
      then have "c # cs = [] @ sub @ r" by simp
      then show ?thesis by blast
    next
      case 2
      then obtain ps ss where "cs = ps @ sub @ ss" using Cons.IH by blast
      then have "c # cs = (c # ps) @ sub @ ss" by simp
      then show ?thesis by blast
    qed
  next
    assume "\<exists>ps ss. c # cs = ps @ sub @ ss"
    then obtain ps ss where eq: "c # cs = ps @ sub @ ss" by blast
    show "py_in sub (c # cs)"
    proof (cases ps)
      case Nil
      then have "starts_with (c # cs) sub" using eq by (auto simp: starts_with_iff)
      then show ?thesis by simp
    next
      case (Cons p ps')
      then have "cs = ps' @ sub @ ss" using eq by simp
      then have "py_in sub cs" using Cons.IH by blast
      then show ?thesis by simp
    qed
  qed
qed

subsection \<open>Empty listing attribute\<close>

text \<open>
  Claim C9. When the listing-side attribute is the empty string and the requirement is
  not empty, the area score and the school score are both 1.0: the empty string is a
  substring of every requirement, so the substring test succeeds before the adjacency
  table or the quality table is consulted.
\<close>

theorem empty_listing_attribute_full_match:
  assumes "required \<noteq> []"
  shows "calculate_area_score [] required = 1.0 \<and> calculate_school_score [] required = 1.0"
  using assms by (simp add: calculate_area_score_def calculate_school_score_def)

theorem empty_listing_attribute_full_match_witness:
  "area_chaoyang \<noteq> [] \<and> calculate_area_score [] area_chaoyang = 1.0
   \<and> calculate_school_score [] area_chaoyang = 1.0"
proof -
  have ne: "area_chaoyang \<noteq> []" by (simp add: area_chaoyang_def)
  show ?thesis using ne empty_listing_attribute_full_match [OF ne] by simp
qed

subsection \<open>The adjacency table is directional\<close>

text \<open>
  Claim C10. The area score is not symmetric: a Chaoyang listing against a Fengtai
  requirement scores 0.7 (Chaoyang is listed as a neighbour of Fengtai), while a Fengtai
  listing against a Chaoyang requirement scores 0.2 (Fengtai is not listed as a
  neighbour of Chaoyang).
\<close>

theorem area_score_not_symmetric:
  "calculate_area_score area_chaoyang area_fengtai = 0.7
   \<and> calculate_area_score area_fengtai area_chaoyang = 0.2"
  by (simp add: calculate_area_score_def area_similarity_map_def literal_defs)

subsection \<open>Commute score at a zero cap\<close>

lemma commute_score_positive_cap:
  assumes "0 < m"
  shows "calculate_commute_score c (Some m) =
     (if c \<le> m then Inr 1.0
      else if float_overflows (b64 (real_of_int (c - m) / real_of_int m))
      then Inl OverflowError
      else Inr (max 0 (fsub 1 (b64 (real_of_int (c - m) / real_of_int m)))))"
  using assms by (simp add: int_true_div_def Let_def)

lemma commute_score_zero_cap_excess:
  assumes "0 < c"
  shows "calculate_commute_score c (Some 0) = Inl ZeroDivisionError"
  using assms by (simp add: int_true_div_def)

text \<open>
  Claim C2. The claim says that with a commute cap of 0 minutes the score is 1.0 for a
  listing at 0 minutes and 0.0 for any excess, without raising. The source divides the
  excess by the cap with no guard: for a listing 5 minutes away and a cap of 0 it raises
  \<^verbatim>\<open>ZeroDivisionError\<close>, where the claim says 0.0. At a listing 0 minutes away it
  returns 1.0 as claimed. The cap of 0 is what the commute text \<^verbatim>\<open>0\<close> followed by
  the minutes marker parses to, and scoring listing P001 (25 minutes) against it raises.
\<close>

theorem commute_score_zero_cap_raises:
  "calculate_commute_score 5 (Some 0) = Inl ZeroDivisionError
   \<and> calculate_commute_score 0 (Some 0) = Inr 1.0
   \<and> parse_commute [48, 20998, 38047] = Inr (Some 0)
   \<and> calculate_matching_score default_agent listing_P001
        (empty_requirements\<lparr>req_commute := Some [48, 20998, 38047]\<rparr>)
       = Inl ZeroDivisionError"
  by (simp add: calculate_matching_score_def get_or_empty_def parse_budget_def
        parse_commute_def py_getitem_def marker_defs builtin_defs example_defs float_defs)

subsection \<open>Budget score at a range that ends at zero\<close>

text \<open>
  Claim C7. The claim says that with both bounds set and \<open>budget_min \<le> budget_max\<close> the
  score is 1.0 inside the range and does not increase as the price moves away from it.
  The budget text \<^verbatim>\<open>0-0\<close> followed by the unit marker parses to the range from
  0.0 to 0.0. At the price 0 the score is 1.0, as claimed; at the price 1, above the
  range, the source divides the excess by the cap with no guard and raises
  \<^verbatim>\<open>ZeroDivisionError\<close>, so there is no score at all, and scoring listing P001
  against this budget raises.
\<close>

theorem budget_score_zero_range_raises:
  "parse_budget [48, 45, 48, 19975] = Inr (Some (Finite 0), Some (Finite 0))
   \<and> calculate_budget_score 0 (Some (Finite 0)) (Some (Finite 0)) = Inr 1.0
   \<and> calculate_budget_score 1 (Some (Finite 0)) (Some (Finite 0)) = Inl ZeroDivisionError
   \<and> calculate_matching_score default_agent listing_P001
        (empty_requirements\<lparr>req_budget := Some [48, 45, 48, 19975]\<rparr>)
       = Inl ZeroDivisionError"
  by (simp add: calculate_matching_score_def get_or_empty_def parse_budget_def
        parse_commute_def py_getitem_def budget_ratio_def budget_decay_def
        marker_defs builtin_defs example_defs float_defs b64_values)

subsection \<open>Parsing the preference text\<close>

lemma float_numeral_error: "float_numeral s = Inl e \<Longrightarrow> e = ValueError"
  by (auto simp: float_numeral_def Let_def split: if_splits option.splits prod.splits)

lemma float_unsigned_error: "float_unsigned s = Inl e \<Longrightarrow> e = ValueError"
  by (auto simp: float_unsigned_def Let_def split: if_splits dest: float_numeral_error)

lemma py_float_error: "py_float s = Inl e \<Longrightarrow> e = ValueError"
  by (auto simp: py_float_def Let_def py_bind_Inl_iff split: list.splits if_splits
           dest: float_unsigned_error)

lemma py_int_error: "py_int s = Inl e \<Longrightarrow> e = ValueError"
  by (auto simp: py_int_def split: if_splits)

lemma parse_budget_error: "parse_budget s = Inl e \<Longrightarrow> e = ValueError"
  by (auto simp: parse_budget_def Let_def py_bind_Inl_iff split: if_splits
           dest: py_float_error)

lemma parse_commute_error: "parse_commute s = Inl e \<Longrightarrow> e = ValueError"
  by (auto simp: parse_commute_def py_bind_Inl_iff split: if_splits list.splits
           dest: py_int_error)

lemma py_float_rejects: "isl (py_float t) \<Longrightarrow> py_float t = Inl ValueError"
  by (cases "py_float t") (auto dest: py_float_error)

lemma py_in_marker_nonempty: "py_in marker_wan s \<Longrightarrow> s \<noteq> []"
  by (auto simp: marker_wan_def)

lemma digit_runs_run:
  assumes "list_all is_digit ds" and "\<not> is_digit c" and "cur @ ds \<noteq> []"
  shows "digit_runs cur (ds @ c # cs) = (cur @ ds) # digit_runs [] cs"
  using assms by (induction ds arbitrary: cur) auto

text \<open>
  Claim C3, negated as stated. The budget text made of the Chinese numerals U+4E94
  U+767E, the unit marker U+4E07 and the suffix U+4EE5 U+5185 has the recognised
  or-less shape, and \<^verbatim>\<open>float\<close> is then called on the two numerals: the parsing
  raises \<^verbatim>\<open>ValueError\<close>. So does the text \<^verbatim>\<open>-\<close> followed by the unit marker, where
  \<^verbatim>\<open>float\<close> is called on the empty string.
\<close>


theorem preference_parsing_raises:
  "parse_budget [20116, 30334, 19975, 20197, 20869] = Inl ValueError
   \<and> parse_budget [45, 19975] = Inl ValueError"
  by (simp add: parse_budget_def marker_defs builtin_defs)

text \<open>
  Claim C3, amended. Budget text degrades to no bounds when it lacks the unit marker,
  when the marker is there and the rest has a \<^verbatim>\<open>-\<close> that does not split it into
  exactly two parts, and when the rest has neither a \<^verbatim>\<open>-\<close> nor the or-less suffix.
  Budget text of a recognised shape (two parts around one \<^verbatim>\<open>-\<close>, or the or-less
  suffix) raises \<^verbatim>\<open>ValueError\<close> when \<^verbatim>\<open>float\<close> rejects a numeric part, and
  otherwise gives the bounds that \<^verbatim>\<open>float\<close> reads, times 10000. Commute text
  degrades to no cap when it lacks the minutes marker or has no digit; with the marker
  and a digit it raises \<^verbatim>\<open>ValueError\<close> when the first run of digits is longer than
  the limit of \<^verbatim>\<open>int\<close>, and otherwise gives the number written by that run. The
  only exception either parsing block raises is \<^verbatim>\<open>ValueError\<close>.
\<close>

theorem preference_parsing_degrades_or_raises_ValueError:
  "(\<not> py_in marker_wan s \<longrightarrow> parse_budget s = Inr (None, None))
   \<and> (py_in [char_dash] (py_remove marker_wan s)
        \<and> length (py_split (py_remove marker_wan s) char_dash) \<noteq> 2
      \<longrightarrow> parse_budget s = Inr (None, None))
   \<and> (\<not> py_in [char_dash] (py_remove marker_wan s)
        \<and> \<not> py_in marker_yinei (py_remove marker_wan s)
      \<longrightarrow> parse_budget s = Inr (None, None))
   \<and> (py_in marker_wan s \<and> py_in [char_dash] (py_remove marker_wan s)
        \<and> py_split (py_remove marker_wan s) char_dash = [lo, hi]
        \<and> (isl (py_float (py_strip lo)) \<or> isl (py_float (py_strip hi)))
      \<longrightarrow> parse_budget s = Inl ValueError)
   \<and> (py_in marker_wan s \<and> py_in [char_dash] (py_remove marker_wan s)
        \<and> py_split (py_remove marker_wan s) char_dash = [lo, hi]
        \<and> py_float (py_strip lo) = Inr a \<and> py_float (py_strip hi) = Inr b
      \<longrightarrow> parse_budget s = Inr (Some (float_times a 10000), Some (float_times b 10000)))
   \<and> (py_in marker_wan s \<and> \<not> py_in [char_dash] (py_remove marker_wan s)
        \<and> py_in marker_yinei (py_remove marker_wan s)
        \<and> isl (py_float (py_strip (py_remove marker_yinei (py_remove marker_wan s))))
      \<longrightarrow> parse_budget s = Inl ValueError)
   \<and> (py_in marker_wan s \<and> \<not> py_in [char_dash] (py_remove marker_wan s)
        \<and> py_in marker_yinei (py_remove marker_wan s)
        \<and> py_float (py_strip (py_remove marker_yinei (py_remove marker_wan s))) = Inr b
      \<longrightarrow> parse_budget s = Inr (None, Some (float_times b 10000)))
   \<and> (\<forall>e. parse_budget s = Inl e \<longrightarrow> e = ValueError)
   \<and> (\<not> py_in marker_fenzhong c \<or> re_findall_digits c = []
      \<longrightarrow> parse_commute c = Inr None)
   \<and> (py_in marker_fenzhong c \<and> re_findall_digits c = n # ns
        \<and> length n > int_max_str_digits
      \<longrightarrow> parse_commute c = Inl ValueError)
   \<and> (py_in marker_fenzhong c \<and> re_findall_digits c = n # ns
        \<and> length n \<le> int_max_str_digits
      \<longrightarrow> parse_commute c = Inr (Some (int (digits_value n))))
   \<and> (\<forall>e. parse_commute c = Inl e \<longrightarrow> e = ValueError)"
proof (intro conjI impI allI)
  assume "\<not> py_in marker_wan s"
  then show "parse_budget s = Inr (None, None)" by (simp add: parse_budget_def)
next
  assume "py_in [char_dash] (py_remove marker_wan s)
        \<and> length (py_split (py_remove marker_wan s) char_dash) \<noteq> 2"
  then show "parse_budget s = Inr (None, None)" by (simp add: parse_budget_def Let_def)
next
  assume "\<not> py_in [char_dash] (py_remove marker_wan s)
        \<and> \<not> py_in marker_yinei (py_remove marker_wan s)"
  then show "parse_budget s = Inr (None, None)" by (simp add: parse_budget_def Let_def)
next
  assume h: "py_in marker_wan s \<and> py_in [char_dash] (py_remove marker_wan s)
        \<and> py_split (py_remove marker_wan s) char_dash = [lo, hi]
        \<and> (isl (py_float (py_strip lo)) \<or> isl (py_float (py_strip hi)))"
  then have ne: "s \<noteq> []" by (simp add: py_in_marker_nonempty)
  from h consider "py_float (py_strip lo) = Inl ValueError"
    | v where "py_float (py_strip lo) = Inr v" "py_float (py_strip hi) = Inl ValueError"
    by (cases "py_float (py_strip lo)") (auto dest: py_float_error py_float_rejects)
  then show "parse_budget s = Inl ValueError"
    using h ne by cases (simp_all add: parse_budget_def Let_def)
next
  assume h: "py_in marker_wan s \<and> py_in [char_dash] (py_remove marker_wan s)
        \<and> py_split (py_remove marker_wan s) char_dash = [lo, hi]
        \<and> py_float (py_strip lo) = Inr a \<and> py_float (py_strip hi) = Inr b"
  then have ne: "s \<noteq> []" by (simp add: py_in_marker_nonempty)
  show "parse_budget s = Inr (Some (float_times a 10000), Some (float_times b 10000))"
    using h ne by (simp add: parse_budget_def Let_def)
next
  assume h: "py_in marker_wan s \<and> \<not> py_in [char_dash] (py_remove marker_wan s)
        \<and> py_in marker_yinei (py_remove marker_wan s)
        \<and> isl (py_float (py_strip (py_remove marker_yinei (py_remove marker_wan s))))"
  then have ne: "s \<noteq> []" by (simp add: py_in_marker_nonempty)
  have "py_float (py_strip (py_remove marker_yinei (py_remove marker_wan s))) = Inl ValueError"
    using h by (simp add: py_float_rejects)
  then show "parse_budget s = Inl ValueError"
    using h ne by (simp add: parse_budget_def Let_def)
next
  assume h: "py_in marker_wan s \<and> \<not> py_in [char_dash] (py_remove marker_wan s)
        \<and> py_in marker_yinei (py_remove marker_wan s)
        \<and> py_float (py_strip (py_remove marker_yinei (py_remove marker_wan s))) = Inr b"
  then have ne: "s \<noteq> []" by (simp add: py_in_marker_nonempty)
  show "parse_budget s = Inr (None, Some (float_times b 10000))"
    using h ne by (simp add: parse_budget_def Let_def)
next
  fix e assume "parse_budget s = Inl e"
  then show "e = ValueError" by (rule parse_budget_error)
next
  assume "\<not> py_in marker_fenzhong c \<or> re_findall_digits c = []"
  then show "parse_commute c = Inr None" by (auto simp: parse_commute_def)
next
  assume h: "py_in marker_fenzhong c \<and> re_findall_digits c = n # ns
        \<and> length n > int_max_str_digits"
  then have "c \<noteq> []" by (auto simp: marker_fenzhong_def)
  then show "parse_commute c = Inl ValueError"
    using h by (simp add: parse_commute_def py_int_def)
next
  assume h: "py_in marker_fenzhong c \<and> re_findall_digits c = n # ns
        \<and> length n \<le> int_max_str_digits"
  then have "c \<noteq> []" by (auto simp: marker_fenzhong_def)
  then show "parse_commute c = Inr (Some (int (digits_value n)))"
    using h by (simp add: parse_commute_def py_int_def)
next
  fix e assume "parse_commute c = Inl e"
  then show "e = ValueError" by (rule parse_commute_error)
qed

lemma long_digit_run:
  "py_in marker_fenzhong (replicate 4301 48 @ marker_fenzhong)
   \<and> re_findall_digits (replicate 4301 48 @ marker_fenzhong) = [replicate 4301 48]"
proof
  have "replicate 4301 48 @ marker_fenzhong = replicate 4301 48 @ marker_fenzhong @ []" by simp
  then show "py_in marker_fenzhong (replicate 4301 48 @ marker_fenzhong)"
    unfolding py_in_iff by blast
  have d: "is_digit 48" "\<not> is_digit 20998" "\<not> is_digit 38047"
    by (simp_all add: is_digit_def digit_value_def decimal_digit_blocks_def)
  have all: "list_all is_digit (replicate 4301 48)" using d(1) by (simp add: list_all_iff)
  have "digit_runs [] (replicate 4301 48 @ 20998 # [38047])
      = ([] @ replicate 4301 48) # digit_runs [] [38047]"
    by (rule digit_runs_run [OF all d(2)]) simp
  then show "re_findall_digits (replicate 4301 48 @ marker_fenzhong) = [replicate 4301 48]"
    using d(3) by (simp add: re_findall_digits_def marker_fenzhong_def)
qed


theorem preference_parsing_witness:
  "\<not> py_in marker_wan [53, 48, 48] \<and> parse_budget [53, 48, 48] = Inr (None, None)
   \<and> py_in [char_dash] (py_remove marker_wan [51, 45, 52, 45, 53, 19975])
   \<and> length (py_split (py_remove marker_wan [51, 45, 52, 45, 53, 19975]) char_dash) \<noteq> 2
   \<and> parse_budget [51, 45, 52, 45, 53, 19975] = Inr (None, None)
   \<and> \<not> py_in [char_dash] (py_remove marker_wan [53, 48, 48, 19975])
   \<and> \<not> py_in marker_yinei (py_remove marker_wan [53, 48, 48, 19975])
   \<and> parse_budget [53, 48, 48, 19975] = Inr (None, None)
   \<and> py_split (py_remove marker_wan [45, 19975]) char_dash = [[], []]
   \<and> isl (py_float (py_strip []))
   \<and> parse_budget [45, 19975] = Inl ValueError
   \<and> py_split (py_remove marker_wan [51, 48, 48, 45, 53, 48, 48, 19975]) char_dash
       = [[51, 48, 48], [53, 48, 48]]
   \<and> py_float (py_strip [51, 48, 48]) = Inr (Finite 300)
   \<and> py_float (py_strip [53, 48, 48]) = Inr (Finite 500)
   \<and> parse_budget [51, 48, 48, 45, 53, 48, 48, 19975]
       = Inr (Some (Finite 3000000), Some (Finite 5000000))
   \<and> py_in marker_yinei (py_remove marker_wan [20116, 30334, 19975, 20197, 20869])
   \<and> isl (py_float (py_strip (py_remove marker_yinei
             (py_remove marker_wan [20116, 30334, 19975, 20197, 20869]))))
   \<and> parse_budget [20116, 30334, 19975, 20197, 20869] = Inl ValueError
   \<and> py_float (py_strip (py_remove marker_yinei
         (py_remove marker_wan [49, 101, 50, 19975, 20197, 20869]))) = Inr (Finite 100)
   \<and> parse_budget [49, 101, 50, 19975, 20197, 20869] = Inr (None, Some (Finite 1000000))
   \<and> \<not> py_in marker_fenzhong [51, 48] \<and> parse_commute [51, 48] = Inr None
   \<and> re_findall_digits [20998, 38047] = [] \<and> parse_commute [20998, 38047] = Inr None
   \<and> py_in marker_fenzhong [65299, 65296, 20998, 38047]
   \<and> re_findall_digits [65299, 65296, 20998, 38047] = [[65299, 65296]]
   \<and> parse_commute [65299, 65296, 20998, 38047] = Inr (Some 30)
   \<and> re_findall_digits (replicate 4301 48 @ marker_fenzhong) = [replicate 4301 48]
   \<and> parse_commute (replicate 4301 48 @ marker_fenzhong) = Inl ValueError"
proof -
  have w1: "\<not> py_in marker_wan [53, 48, 48] \<and> parse_budget [53, 48, 48] = Inr (None, None)
      \<and> \<not> py_in marker_fenzhong [51, 48] \<and> parse_commute [51, 48] = Inr None"
    using preference_parsing_degrades_or_raises_ValueError
      [where s = "[53, 48, 48]" and c = "[51, 48]"]
    by (simp add: marker_defs)
  have w2: "py_in [char_dash] (py_remove marker_wan [51, 45, 52, 45, 53, 19975])
      \<and> length (py_split (py_remove marker_wan [51, 45, 52, 45, 53, 19975]) char_dash) \<noteq> 2
      \<and> parse_budget [51, 45, 52, 45, 53, 19975] = Inr (None, None)
      \<and> re_findall_digits [20998, 38047] = [] \<and> parse_commute [20998, 38047] = Inr None"
    using preference_parsing_degrades_or_raises_ValueError
      [where s = "[51, 45, 52, 45, 53, 19975]" and c = "[20998, 38047]"]
    by (simp add: marker_defs re_findall_digits_def is_digit_def digit_value_def
          decimal_digit_blocks_def)
  have w3: "\<not> py_in [char_dash] (py_remove marker_wan [53, 48, 48, 19975])
      \<and> \<not> py_in marker_yinei (py_remove marker_wan [53, 48, 48, 19975])
      \<and> parse_budget [53, 48, 48, 19975] = Inr (None, None)"
    using preference_parsing_degrades_or_raises_ValueError [where s = "[53, 48, 48, 19975]"]
    by (simp add: marker_defs)
  have w4: "py_split (py_remove marker_wan [45, 19975]) char_dash = [[], []]
      \<and> isl (py_float (py_strip []))
      \<and> parse_budget [45, 19975] = Inl ValueError"
    using preference_parsing_degrades_or_raises_ValueError
      [where s = "[45, 19975]" and lo = "[]" and hi = "[]"]
    by (simp add: marker_defs builtin_defs)
  have w5: "py_split (py_remove marker_wan [51, 48, 48, 45, 53, 48, 48, 19975]) char_dash
       = [[51, 48, 48], [53, 48, 48]]
      \<and> py_float (py_strip [51, 48, 48]) = Inr (Finite 300)
      \<and> py_float (py_strip [53, 48, 48]) = Inr (Finite 500)
      \<and> parse_budget [51, 48, 48, 45, 53, 48, 48, 19975]
          = Inr (Some (Finite 3000000), Some (Finite 5000000))"
    using preference_parsing_degrades_or_raises_ValueError
      [where s = "[51, 48, 48, 45, 53, 48, 48, 19975]" and lo = "[51, 48, 48]"
         and hi = "[53, 48, 48]" and a = "Finite 300" and b = "Finite 500"]
    by (simp add: marker_defs builtin_defs float_defs b64_values)
  have w6: "py_in marker_yinei (py_remove marker_wan [20116, 30334, 19975, 20197, 20869])
      \<and> isl (py_float (py_strip (py_remove marker_yinei
             (py_remove marker_wan [20116, 30334, 19975, 20197, 20869]))))
      \<and> parse_budget [20116, 30334, 19975, 20197, 20869] = Inl ValueError"
    using preference_parsing_degrades_or_raises_ValueError
      [where s = "[20116, 30334, 19975, 20197, 20869]"]
    by (simp add: marker_defs builtin_defs)
  have w7: "py_float (py_strip (py_remove marker_yinei
         (py_remove marker_wan [49, 101, 50, 19975, 20197, 20869]))) = Inr (Finite 100)
      \<and> parse_budget [49, 101, 50, 19975, 20197, 20869] = Inr (None, Some (Finite 1000000))"
    using preference_parsing_degrades_or_raises_ValueError
      [where s = "[49, 101, 50, 19975, 20197, 20869]" and b = "Finite 100"]
    by (simp add: marker_defs builtin_defs float_defs b64_values)
  have w8: "py_in marker_fenzhong [65299, 65296, 20998, 38047]
      \<and> re_findall_digits [65299, 65296, 20998, 38047] = [[65299, 65296]]
      \<and> parse_commute [65299, 65296, 20998, 38047] = Inr (Some 30)"
    using preference_parsing_degrades_or_raises_ValueError
      [where c = "[65299, 65296, 20998, 38047]" and n = "[65299, 65296]" and ns = "[]"]
    by (simp add: marker_defs re_findall_digits_def is_digit_def digit_value_def
          decimal_digit_blocks_def digits_value_def int_max_str_digits_def)
  have w9: "re_findall_digits (replicate 4301 48 @ marker_fenzhong) = [replicate 4301 48]
      \<and> parse_commute (replicate 4301 48 @ marker_fenzhong) = Inl ValueError"
    using preference_parsing_degrades_or_raises_ValueError
      [where c = "replicate 4301 48 @ marker_fenzhong" and n = "replicate 4301 48"
         and ns = "[]"]
      long_digit_run
    by (simp add: int_max_str_digits_def)
  show ?thesis using w1 w2 w3 w4 w5 w6 w7 w8 w9 by blast
qed

subsection \<open>Scores outside the unit interval\<close>

text \<open>
  Claim C1. The claim says that every criterion score and the total lie between 0 and
  1, for every listing and every preference input. The budget text \<^verbatim>\<open>0\<close> followed
  by the unit marker and the or-less suffix parses to a cap of 0.0; the budget scorer
  then divides by the cap with no guard, and for listing P001 it raises
  \<^verbatim>\<open>ZeroDivisionError\<close>: no score is computed (the same unguarded division as in
  the commute scorer, claim C2). And the total can exceed 1: with the raw weights
  4, 3, 3, 3 the stored weights are the floats nearest to 4/13 and 3/13, and for a
  listing whose four criterion scores are all 1.0 the rounded sum of the four products
  is \<open>1 + 1 / 2 ^ 52\<close>, which is 1.0000000000000002.
\<close>

theorem scores_leave_unit_interval:
  "parse_budget [48, 19975, 20197, 20869] = Inr (None, Some (Finite 0))
   \<and> calculate_budget_score 3500000 None (Some (Finite 0)) = Inl ZeroDivisionError
   \<and> calculate_matching_score default_agent listing_P001
        (empty_requirements\<lparr>req_budget := Some [48, 19975, 20197, 20869]\<rparr>)
       = Inl ZeroDivisionError
   \<and> matching_agent_init 4 3 3 3 = Inr agent_4_3_3_3
   \<and> calculate_matching_score agent_4_3_3_3 listing_P001
        (example_requirements\<lparr>req_school_district := Some school_chaoyang_experimental\<rparr>)
       = Inr \<lparr>score_property_id = [80, 48, 48, 49],
              total_score = 4503599627370497 / 4503599627370496, budget_score = 1,
              area_score = 1, school_score = 1, commute_score = 1,
              recommendation_reason =
                py_join reason_separator
                  [phrase_budget_strong, phrase_area_strong, phrase_school_strong,
                   phrase_commute_strong]\<rparr>
   \<and> \<not> unit_score (4503599627370497 / 4503599627370496)"
  by (simp add: scoring_defs reason_defs matching_agent_init_def agent_4_3_3_3_def
        unit_score_def marker_defs builtin_defs example_defs literal_defs float_defs b64_values)

subsection \<open>The stored weights need not sum to 1\<close>

text \<open>
  Claim C8. The claim says that the four stored weights sum to exactly 1.0 for every
  choice of non-negative raw weights with a positive sum. For the raw weights
  2, 3, 1, 1 the stored weights are the floats nearest to 2/7, 3/7, 1/7 and 1/7; added
  as floats they give \<open>1 - 1 / 2 ^ 52\<close>, which is 0.9999999999999998, and their exact sum
  is \<open>1 - 1 / 2 ^ 54\<close>. The example of the claim holds: the raw weights 2, 1, 1, 1 are
  stored as the floats of 0.4, 0.2, 0.2 and 0.2, and these add up to 1.0.
\<close>

theorem normalized_weights_sum_below_one:
  "matching_agent_init 2 3 1 1 = Inr agent_2_3_1_1
   \<and> weight_sum agent_2_3_1_1 = 1 - 1 / 2 ^ 52
   \<and> budget_weight agent_2_3_1_1 + area_weight agent_2_3_1_1
       + school_weight agent_2_3_1_1 + commute_weight agent_2_3_1_1 = 1 - 1 / 2 ^ 54
   \<and> matching_agent_init 2 1 1 1 =
       Inr \<lparr>budget_weight = b64 0.4, area_weight = b64 0.2, school_weight = b64 0.2,
            commute_weight = b64 0.2\<rparr>
   \<and> weight_sum \<lparr>budget_weight = b64 0.4, area_weight = b64 0.2, school_weight = b64 0.2,
            commute_weight = b64 0.2\<rparr> = 1"
  by (simp add: matching_agent_init_def agent_2_3_1_1_def weight_sum_def float_defs b64_values)

subsection \<open>Scoring the example listings\<close>

lemma score_P001_empty:
  "calculate_matching_score default_agent listing_P001 empty_requirements =
     Inr \<lparr>score_property_id = [80, 48, 48, 49],
          total_score = 2345624805922133 / 4503599627370496, budget_score = 1 / 2,
          area_score = 1 / 2, school_score = 1 / 2,
          commute_score = 2627099782632789 / 4503599627370496,
          recommendation_reason = phrase_fallback\<rparr>"
  by (simp add: scoring_defs reason_defs example_defs float_defs b64_values)

lemma score_P002_empty:
  "calculate_matching_score default_agent listing_P002 empty_requirements =
     Inr \<lparr>score_property_id = [80, 48, 48, 50], total_score = 1 / 2, budget_score = 1 / 2,
          area_score = 1 / 2, school_score = 1 / 2, commute_score = 1 / 2,
          recommendation_reason = phrase_fallback\<rparr>"
  by (simp add: scoring_defs reason_defs example_defs float_defs b64_values)

lemma score_P003_empty:
  "calculate_matching_score default_agent listing_P003 empty_requirements =
     Inr \<lparr>score_property_id = [80, 48, 48, 51],
          total_score = 4315949642896725 / 9007199254740992, budget_score = 1 / 2,
          area_score = 1 / 2, school_score = 1 / 2,
          commute_score = 3752999689475413 / 9007199254740992,
          recommendation_reason = phrase_fallback\<rparr>"
  by (simp add: scoring_defs reason_defs example_defs float_defs b64_values)

subsection \<open>A listing with a missing attribute\<close>

lemma calculate_matching_score_keys:
  assumes "calculate_matching_score ag l reqs = Inr ms"
  shows "price l \<noteq> None \<and> area l \<noteq> None \<and> school_district l \<noteq> None
    \<and> commute_time l \<noteq> None \<and> property_id l = Some (score_property_id ms)"
  using assms
  by (auto simp: calculate_matching_score_def py_bind_Inr_iff py_getitem_def
           split: option.splits prod.splits)

lemma score_properties_Inr:
  assumes "score_properties ag props reqs = Inr scored"
  shows "map fst scored = props
    \<and> (\<forall>x \<in> set scored. calculate_matching_score ag (fst x) reqs = Inr (snd x))"
  using assms
proof (induction props arbitrary: scored)
  case Nil
  then show ?case by simp
next
  case (Cons l props)
  then obtain ms rest where ms: "calculate_matching_score ag l reqs = Inr ms"
    and rest: "score_properties ag props reqs = Inr rest" and sc: "scored = (l, ms) # rest"
    by (auto simp: py_bind_Inr_iff)
  show ?case using Cons.IH [OF rest] ms sc by simp
qed

lemma score_properties_Inl:
  assumes "l \<in> set props" and "calculate_matching_score ag l reqs = Inl e"
  shows "\<exists>e'. score_properties ag props reqs = Inl e'"
proof (cases "score_properties ag props reqs")
  case (Inl e')
  then show ?thesis by blast
next
  case (Inr scored)
  note sp = score_properties_Inr [OF Inr]
  have "l \<in> fst ` set scored" using sp assms(1) by (metis set_map)
  then obtain x where "x \<in> set scored" "fst x = l" by auto
  then have "calculate_matching_score ag l reqs = Inr (snd x)" using sp by auto
  then show ?thesis using assms(2) by simp
qed

text \<open>
  Claim C4, negated as stated. Listing P001 alone is scored and recommended. With a
  second listing that has no \<^verbatim>\<open>price\<close> key, the result is the empty list: P001
  is not ranked either, and the result carries no count of skipped listings.
\<close>

theorem missing_price_empties_result:
  "length (recommend_properties default_agent [listing_P001] empty_requirements 5) = 1
   \<and> recommend_properties default_agent [listing_P001, listing_P002\<lparr>price := None\<rparr>]
        empty_requirements 5 = []"
  by (simp add: recommend_properties_def score_P001_empty sort_by_total_desc_def py_slice_to_def)
     (simp add: scoring_defs reason_defs example_defs float_defs)

text \<open>
  Claim C4, amended. When any listing of the input lacks one of the keys that
  \<^verbatim>\<open>calculate_matching_score\<close> reads (\<^verbatim>\<open>price\<close>, \<^verbatim>\<open>area\<close>,
  \<^verbatim>\<open>school_district\<close>, \<^verbatim>\<open>commute_time\<close>, \<^verbatim>\<open>property_id\<close>),
  \<^verbatim>\<open>recommend_properties\<close> returns the empty list for the whole batch: the
  exception is caught around the whole body, no listing is ranked, and nothing is
  reported besides the empty result.
\<close>

theorem missing_attribute_aborts_batch:
  assumes "l \<in> set properties"
    and "price l = None \<or> area l = None \<or> school_district l = None
         \<or> commute_time l = None \<or> property_id l = None"
  shows "recommend_properties ag properties reqs top_k = []"
proof -
  have "\<exists>e. calculate_matching_score ag l reqs = Inl e"
  proof (cases "calculate_matching_score ag l reqs")
    case (Inl e)
    then show ?thesis by blast
  next
    case (Inr ms)
    then show ?thesis using calculate_matching_score_keys [OF Inr] assms(2) by auto
  qed
  then obtain e' where "score_properties ag properties reqs = Inl e'"
    using score_properties_Inl [OF assms(1)] by blast
  then show ?thesis by (simp add: recommend_properties_def)
qed

theorem missing_attribute_aborts_batch_witness:
  "listing_P002\<lparr>price := None\<rparr> \<in> set [listing_P001, listing_P002\<lparr>price := None\<rparr>]
   \<and> price (listing_P002\<lparr>price := None\<rparr>) = None
   \<and> recommend_properties default_agent [listing_P001, listing_P002\<lparr>price := None\<rparr>]
        example_requirements 3 = []"
proof -
  have a: "listing_P002\<lparr>price := None\<rparr> \<in> set [listing_P001, listing_P002\<lparr>price := None\<rparr>]"
    by simp
  have b: "price (listing_P002\<lparr>price := None\<rparr>) = None" by simp
  show ?thesis
    using a b missing_attribute_aborts_batch [OF a disjI1 [OF b], of default_agent
        example_requirements 3]
    by simp
qed

subsection \<open>Ranking: order, ranks and the number of recommendations\<close>

lemma py_enumerate_fst: "map fst (py_enumerate s xs) = [s..s + int (length xs) - 1]"
proof (induction xs arbitrary: s)
  case Nil
  then show ?case by simp
next
  case (Cons x xs)
  have "[s..s + int (length (x # xs)) - 1] = s # [s + 1..s + 1 + int (length xs) - 1]"
    by (subst upto_rec1) simp_all
  then show ?case using Cons.IH [of "s + 1"] by simp
qed

lemma py_enumerate_snd: "map snd (py_enumerate s xs) = xs"
  by (induction xs arbitrary: s) simp_all

lemma py_enumerate_length [simp]: "length (py_enumerate s xs) = length xs"
  by (induction xs arbitrary: s) simp_all

lemma recommend_properties_scored:
  assumes "score_properties ag properties reqs = Inr scored"
  shows "map (\<lambda>r. (property_info r, matching_score r))
             (recommend_properties ag properties reqs top_k)
           = py_slice_to (sort_by_total_desc scored) top_k"
    and "map rank (recommend_properties ag properties reqs top_k)
           = [1..int (length (recommend_properties ag properties reqs top_k))]"
proof -
  define sl where "sl = py_slice_to (sort_by_total_desc scored) top_k"
  have recs: "recommend_properties ag properties reqs top_k =
      map (\<lambda>(r, (prop, score)). \<lparr>property_info = prop, matching_score = score, rank = r\<rparr>)
          (py_enumerate 1 sl)"
    using assms by (simp add: recommend_properties_def sl_def)
  have "map (\<lambda>r. (property_info r, matching_score r))
             (recommend_properties ag properties reqs top_k) = map snd (py_enumerate 1 sl)"
    unfolding recs by (simp add: case_prod_beta)
  then show "map (\<lambda>r. (property_info r, matching_score r))
             (recommend_properties ag properties reqs top_k)
           = py_slice_to (sort_by_total_desc scored) top_k"
    by (simp add: py_enumerate_snd sl_def)
  have "map rank (recommend_properties ag properties reqs top_k) = map fst (py_enumerate 1 sl)"
    unfolding recs by (simp add: case_prod_beta)
  moreover have "length (recommend_properties ag properties reqs top_k) = length sl"
    unfolding recs by simp
  ultimately show "map rank (recommend_properties ag properties reqs top_k)
           = [1..int (length (recommend_properties ag properties reqs top_k))]"
    by (simp add: py_enumerate_fst)
qed

lemma sort_by_total_desc_sorted:
  "sorted_wrt (\<lambda>x y. total_score (snd x) \<ge> total_score (snd y)) (sort_by_total_desc scored)"
proof -
  have "sorted (map (\<lambda>x. - total_score (snd x)) (sort_by_total_desc scored))"
    unfolding sort_by_total_desc_def by (rule sorted_sort_key)
  then show ?thesis by (simp add: sorted_map)
qed

lemma sort_by_total_desc_stable:
  "filter (\<lambda>x. total_score (snd x) = v) (sort_by_total_desc scored)
     = filter (\<lambda>x. total_score (snd x) = v) scored"
  using sort_key_stable [of "\<lambda>x. - total_score (snd x)" "- v" scored]
  by (simp add: sort_by_total_desc_def)

lemma sort_by_total_desc_mset: "mset (sort_by_total_desc scored) = mset scored"
  by (simp add: sort_by_total_desc_def)

lemma py_slice_to_take: "\<exists>n. py_slice_to xs k = take n xs"
  by (auto simp: py_slice_to_def)

lemma py_slice_to_nonneg: "0 \<le> k \<Longrightarrow> py_slice_to xs k = take (nat k) xs"
  by (simp add: py_slice_to_def)

lemma recommend_properties_top_k:
  assumes "score_properties ag properties reqs = Inr scored" and "0 \<le> top_k"
  shows "map (\<lambda>r. (property_info r, matching_score r))
             (recommend_properties ag properties reqs top_k)
           = take (nat top_k) (sort_by_total_desc scored)
    \<and> length (recommend_properties ag properties reqs top_k)
        = min (nat top_k) (length properties)"
proof -
  note r = recommend_properties_scored(1) [OF assms(1), of top_k]
  have m: "map (\<lambda>r. (property_info r, matching_score r))
             (recommend_properties ag properties reqs top_k)
           = take (nat top_k) (sort_by_total_desc scored)"
    using r assms(2) by (simp add: py_slice_to_nonneg)
  have "length scored = length properties"
    using score_properties_Inr [OF assms(1)] by (metis length_map)
  moreover have "length (sort_by_total_desc scored) = length scored"
    by (simp add: sort_by_total_desc_def)
  moreover have "length (recommend_properties ag properties reqs top_k)
      = length (take (nat top_k) (sort_by_total_desc scored))"
    using m by (metis length_map)
  ultimately show ?thesis using m by (simp add: min.commute)
qed

text \<open>
  Claim C6. The claim says that a negative \<^verbatim>\<open>top_k\<close> gives an empty result. The
  source slices with \<^verbatim>\<open>scored_properties[:top_k]\<close>, and a negative bound of a Python
  slice counts from the end: for three listings and \<^verbatim>\<open>top_k = -1\<close> the result has
  the two best listings, ranked 1 and 2, and not the empty list.
\<close>

theorem negative_top_k_drops_from_the_end:
  "map (\<lambda>r. (rank r, property_id (property_info r)))
       (recommend_properties default_agent [listing_P001, listing_P002, listing_P003]
          empty_requirements (- 1))
     = [(1, Some [80, 48, 48, 49]), (2, Some [80, 48, 48, 50])]"
  by (simp add: recommend_properties_def score_P001_empty score_P002_empty score_P003_empty
        sort_by_total_desc_def py_slice_to_def)
     (simp add: example_defs)

subsection \<open>The summary keeps the order of the recommendations\<close>

lemma py_map_Inr:
  assumes "py_map f xs = Inr ys"
  shows "list_all2 (\<lambda>x y. f x = Inr y) xs ys"
  using assms
proof (induction xs arbitrary: ys)
  case Nil
  then show ?case by simp
next
  case (Cons x xs)
  then obtain y rest where "f x = Inr y" "py_map f xs = Inr rest" "ys = y # rest"
    by (auto simp: py_bind_Inr_iff)
  then show ?case using Cons.IH by simp
qed

lemma summary_entry_of_fields:
  assumes "summary_entry_of round2 rec = Inr e"
  shows "entry_rank e = rank rec \<and> property_id (property_info rec) = Some (entry_property_id e)"
  using assms
  by (auto simp: summary_entry_of_def py_bind_Inr_iff py_getitem_def split: option.splits)

lemma list_all2_map_eq:
  assumes "list_all2 (\<lambda>x y. f y = g x) xs ys"
  shows "map f ys = map g xs"
  using assms by (induction rule: list_all2_induct) auto

lemma summary_entries:
  assumes "generate_recommendation_summary round2 recs = Inr (Report rep)"
  shows "map entry_rank (recommendations rep) = map rank recs
    \<and> map (\<lambda>e. Some (entry_property_id e)) (recommendations rep)
        = map (\<lambda>rec. property_id (property_info rec)) recs"
proof -
  have "py_map (summary_entry_of round2) recs = Inr (recommendations rep)"
    using assms
    by (auto simp: generate_recommendation_summary_def Let_def py_bind_Inr_iff
             split: list.splits)
  then have all: "list_all2 (\<lambda>rec e. summary_entry_of round2 rec = Inr e) recs
      (recommendations rep)"
    by (rule py_map_Inr)
  have "list_all2 (\<lambda>rec e. entry_rank e = rank rec) recs (recommendations rep)"
    by (rule list_all2_mono [OF all]) (simp add: summary_entry_of_fields)
  then have ranks: "map entry_rank (recommendations rep) = map rank recs"
    by (rule list_all2_map_eq)
  have "list_all2 (\<lambda>rec e. Some (entry_property_id e) = property_id (property_info rec))
      recs (recommendations rep)"
    by (rule list_all2_mono [OF all]) (simp add: summary_entry_of_fields)
  then have "map (\<lambda>e. Some (entry_property_id e)) (recommendations rep)
        = map (\<lambda>rec. property_id (property_info rec)) recs"
    by (rule list_all2_map_eq)
  then show ?thesis using ranks by simp
qed

lemma py_map_returns:
  assumes "\<forall>x \<in> set xs. \<exists>y. f x = Inr y"
  shows "\<exists>ys. py_map f xs = Inr ys"
  using assms
proof (induction xs)
  case Nil
  then show ?case by simp
next
  case (Cons x xs)
  then obtain y ys where "f x = Inr y" "py_map f xs = Inr ys" by auto
  then show ?case by simp
qed

lemma summary_returns:
  assumes "\<forall>rec \<in> set recs. property_id (property_info rec) \<noteq> None
      \<and> address (property_info rec) \<noteq> None \<and> price (property_info rec) \<noteq> None
      \<and> area (property_info rec) \<noteq> None \<and> school_district (property_info rec) \<noteq> None
      \<and> commute_time (property_info rec) \<noteq> None"
  shows "\<exists>s. generate_recommendation_summary round2 recs = Inr s"
proof (cases recs)
  case Nil
  then show ?thesis by (simp add: generate_recommendation_summary_def)
next
  case (Cons first others)
  have "\<forall>rec \<in> set recs. \<exists>p. py_getitem (price (property_info rec)) = Inr p"
    using assms by (auto simp: py_getitem_def)
  then obtain prices where
    prices: "py_map (\<lambda>rec. py_getitem (price (property_info rec))) recs = Inr prices"
    using py_map_returns [of recs "\<lambda>rec. py_getitem (price (property_info rec))"] by blast
  have "\<forall>rec \<in> set recs. \<exists>e. summary_entry_of round2 rec = Inr e"
  proof
    fix rec assume "rec \<in> set recs"
    then have k: "property_id (property_info rec) \<noteq> None"
      "address (property_info rec) \<noteq> None" "price (property_info rec) \<noteq> None"
      "area (property_info rec) \<noteq> None" "school_district (property_info rec) \<noteq> None"
      "commute_time (property_info rec) \<noteq> None"
      using assms by blast+
    then obtain pid addr p a sd ct where
      "property_id (property_info rec) = Some pid" "address (property_info rec) = Some addr"
      "price (property_info rec) = Some p" "area (property_info rec) = Some a"
      "school_district (property_info rec) = Some sd" "commute_time (property_info rec) = Some ct"
      by blast
    then show "\<exists>e. summary_entry_of round2 rec = Inr e"
      by (simp add: summary_entry_of_def py_getitem_def)
  qed
  then obtain entries where entries: "py_map (summary_entry_of round2) recs = Inr entries"
    using py_map_returns [of recs "summary_entry_of round2"] by blast
  have "first \<in> set recs" using Cons by simp
  then have k: "property_id (property_info first) \<noteq> None"
      "address (property_info first) \<noteq> None" "price (property_info first) \<noteq> None"
    using assms by blast+
  then obtain pid addr p where
      "property_id (property_info first) = Some pid" "address (property_info first) = Some addr"
      "price (property_info first) = Some p"
    by blast
  then have "\<exists>t. top_recommendation_of round2 first = Inr t"
    by (simp add: top_recommendation_of_def py_getitem_def)
  then obtain t where t: "top_recommendation_of round2 first = Inr t" by blast
  have "generate_recommendation_summary round2 (first # others) =
      py_bind (py_map (\<lambda>rec. py_getitem (price (property_info rec))) (first # others)) (\<lambda>prices.
          py_bind (top_recommendation_of round2 first) (\<lambda>top.
          py_bind (py_map (summary_entry_of round2) (first # others)) (\<lambda>entries.
            Inr (Report \<lparr>total_recommendations = length (first # others),
                         average_matching_score =
                           round2 (b64 (foldl fadd 0 (map (\<lambda>rec. total_score (matching_score rec))
                                                         (first # others))
                                        / real (length (first # others)))),
                         price_range_min = foldl min (hd prices) (tl prices),
                         price_range_max = foldl max (hd prices) (tl prices),
                         top_recommendation = top,
                         recommendations = entries\<rparr>))))"
    unfolding generate_recommendation_summary_def Let_def list.case ..
  then show ?thesis
    unfolding Cons [symmetric] prices entries t py_bind_simps by blast
qed

lemma recommend_properties_members:
  assumes "score_properties ag properties reqs = Inr scored"
    and "rec \<in> set (recommend_properties ag properties reqs top_k)"
  shows "property_info rec \<in> set properties
    \<and> calculate_matching_score ag (property_info rec) reqs = Inr (matching_score rec)"
proof -
  obtain n where n: "py_slice_to (sort_by_total_desc scored) top_k
      = take n (sort_by_total_desc scored)"
    using py_slice_to_take by blast
  have "(property_info rec, matching_score rec)
      \<in> set (map (\<lambda>r. (property_info r, matching_score r))
                (recommend_properties ag properties reqs top_k))"
    using assms(2) by (simp add: image_iff) blast
  then have "(property_info rec, matching_score rec) \<in> set (take n (sort_by_total_desc scored))"
    using recommend_properties_scored(1) [OF assms(1), of top_k] n by simp
  then have "(property_info rec, matching_score rec) \<in> set (sort_by_total_desc scored)"
    by (rule in_set_takeD)
  then have mem: "(property_info rec, matching_score rec) \<in> set scored"
    by (simp add: sort_by_total_desc_def)
  note sp = score_properties_Inr [OF assms(1)]
  have "fst (property_info rec, matching_score rec) \<in> set (map fst scored)"
    using mem by (metis image_eqI set_map)
  then have "property_info rec \<in> set properties" using sp by simp
  moreover have "calculate_matching_score ag (property_info rec) reqs = Inr (matching_score rec)"
    using sp mem by fastforce
  ultimately show ?thesis by simp
qed

subsection \<open>Ranking is stable and ranks are contiguous\<close>

text \<open>
  Claim C5. Let the scoring loop succeed on the input, giving the scored listings in
  input order. Then the sorted list is a permutation of them, in descending order of
  \<^verbatim>\<open>total_score\<close>, and stable: for every score value, the listings with that
  score appear in the sorted list in the same order as in the input. The
  recommendations are a prefix of the sorted list (the slice), and their ranks are
  1, 2, ..., N in that order. The summary lists the recommendations in the same order
  with the same ranks, and it is returned whenever every listing has an address. The
  result is a function of the agent, the listings, the requirements and \<^verbatim>\<open>top_k\<close>
  alone (the source reads no other state and draws no random numbers), so a second run
  on the same inputs gives the same recommendations and the same summary. When the
  scoring loop raises, the result is the empty list.
\<close>

theorem ranking_stable_and_contiguous:
  assumes "score_properties ag properties reqs = Inr scored"
  shows "map fst scored = properties
    \<and> mset (sort_by_total_desc scored) = mset scored
    \<and> sorted_wrt (\<lambda>x y. total_score (snd x) \<ge> total_score (snd y)) (sort_by_total_desc scored)
    \<and> (\<forall>v. filter (\<lambda>x. total_score (snd x) = v) (sort_by_total_desc scored)
             = filter (\<lambda>x. total_score (snd x) = v) scored)
    \<and> map (\<lambda>r. (property_info r, matching_score r))
          (recommend_properties ag properties reqs top_k)
        = py_slice_to (sort_by_total_desc scored) top_k
    \<and> (\<exists>n. py_slice_to (sort_by_total_desc scored) top_k = take n (sort_by_total_desc scored))
    \<and> map rank (recommend_properties ag properties reqs top_k)
        = [1..int (length (recommend_properties ag properties reqs top_k))]
    \<and> (\<forall>round2 rep.
          generate_recommendation_summary round2 (recommend_properties ag properties reqs top_k)
            = Inr (Report rep)
          \<longrightarrow> map entry_rank (recommendations rep)
                = map rank (recommend_properties ag properties reqs top_k)
              \<and> map (\<lambda>e. Some (entry_property_id e)) (recommendations rep)
                = map (\<lambda>rec. property_id (property_info rec))
                      (recommend_properties ag properties reqs top_k))
    \<and> ((\<forall>l \<in> set properties. address l \<noteq> None)
        \<longrightarrow> (\<forall>round2. \<exists>s. generate_recommendation_summary round2
                            (recommend_properties ag properties reqs top_k) = Inr s))"
proof -
  have summary: "\<exists>s. generate_recommendation_summary round2
                   (recommend_properties ag properties reqs top_k) = Inr s"
    if addr: "\<forall>l \<in> set properties. address l \<noteq> None" for round2
  proof (rule summary_returns, rule ballI)
    fix rec assume "rec \<in> set (recommend_properties ag properties reqs top_k)"
    note m = recommend_properties_members [OF assms this]
    from m have "address (property_info rec) \<noteq> None" using addr by blast
    then show "property_id (property_info rec) \<noteq> None
      \<and> address (property_info rec) \<noteq> None \<and> price (property_info rec) \<noteq> None
      \<and> area (property_info rec) \<noteq> None \<and> school_district (property_info rec) \<noteq> None
      \<and> commute_time (property_info rec) \<noteq> None"
      using calculate_matching_score_keys [of ag "property_info rec" reqs "matching_score rec"] m
      by simp
  qed
  show ?thesis
    using score_properties_Inr [OF assms] recommend_properties_scored [OF assms, of top_k]
      sort_by_total_desc_sorted [of scored] sort_by_total_desc_stable [of _ scored]
      sort_by_total_desc_mset [of scored]
      py_slice_to_take [of "sort_by_total_desc scored" top_k]
      summary_entries [of _ "recommend_properties ag properties reqs top_k"] summary
    by simp
qed

lemma score_P001_example:
  "calculate_matching_score default_agent listing_P001 example_requirements =
     Inr \<lparr>score_property_id = [80, 48, 48, 49], total_score = 7 / 8, budget_score = 1,
          area_score = 1, school_score = 1 / 2, commute_score = 1,
          recommendation_reason = recommendation_reason_of 1 1 (1 / 2) 1\<rparr>"
  by (simp add: scoring_defs example_defs marker_defs builtin_defs literal_defs float_defs
        b64_values)

lemma score_P005_example:
  "calculate_matching_score default_agent listing_P005 example_requirements =
     Inr \<lparr>score_property_id = [80, 48, 48, 53], total_score = 7 / 8, budget_score = 1,
          area_score = 1, school_score = 1 / 2, commute_score = 1,
          recommendation_reason = recommendation_reason_of 1 1 (1 / 2) 1\<rparr>"
  by (simp add: scoring_defs example_defs marker_defs builtin_defs literal_defs float_defs
        b64_values)

lemma score_P002_example:
  "calculate_matching_score default_agent listing_P002 example_requirements =
     Inr \<lparr>score_property_id = [80, 48, 48, 50],
          total_score = 3715469692580659 / 4503599627370496, budget_score = 1,
          area_score = 3152519739159347 / 4503599627370496, school_score = 1 / 2,
          commute_score = 1,
          recommendation_reason =
            recommendation_reason_of 1 (3152519739159347 / 4503599627370496) (1 / 2) 1\<rparr>"
  by (simp add: scoring_defs example_defs marker_defs builtin_defs literal_defs float_defs
        b64_values)

lemma score_P003_example:
  "calculate_matching_score default_agent listing_P003 example_requirements =
     Inr \<lparr>score_property_id = [80, 48, 48, 51],
          total_score = 6104879494880005 / 9007199254740992,
          budget_score = 4203359652212463 / 4503599627370496,
          area_score = 3602879701896397 / 18014398509481984, school_score = 1 / 2,
          commute_score = 7505999378950827 / 9007199254740992,
          recommendation_reason =
            recommendation_reason_of (4203359652212463 / 4503599627370496)
              (3602879701896397 / 18014398509481984) (1 / 2)
              (7505999378950827 / 9007199254740992)\<rparr>"
  by (simp add: scoring_defs example_defs marker_defs builtin_defs literal_defs float_defs
        b64_values)

theorem ranking_stable_and_contiguous_witness:
  "(\<exists>scored. score_properties default_agent
        [listing_P003, listing_P005, listing_P002, listing_P001] example_requirements
      = Inr scored)
   \<and> map (\<lambda>r. (rank r, property_id (property_info r), total_score (matching_score r)))
       (recommend_properties default_agent
          [listing_P003, listing_P005, listing_P002, listing_P001] example_requirements 3)
     = [(1, Some [80, 48, 48, 53], 7 / 8), (2, Some [80, 48, 48, 49], 7 / 8),
        (3, Some [80, 48, 48, 50], 3715469692580659 / 4503599627370496)]"
proof -
  define props where "props = [listing_P003, listing_P005, listing_P002, listing_P001]"
  define recs where "recs = recommend_properties default_agent props example_requirements 3"
  obtain scored where scored:
    "score_properties default_agent props example_requirements = Inr scored"
    "map (total_score \<circ> snd) scored = [6104879494880005 / 9007199254740992, 7 / 8, 3715469692580659 / 4503599627370496, 7 / 8]"
    by (simp add: props_def score_P001_example score_P002_example score_P003_example
          score_P005_example)
  note r = ranking_stable_and_contiguous [OF scored(1), of 3, folded recs_def]
  have fst: "map fst scored = props" using r by blast
  have ranks: "map rank recs = [1..int (length recs)]" using r by blast
  have sl: "map (\<lambda>r. (property_info r, matching_score r)) recs
      = py_slice_to (sort_by_total_desc scored) 3" using r by blast
  have len: "length scored = 4" using arg_cong [OF scored(2), of length] by simp
  then obtain a b c d where abcd: "scored = [a, b, c, d]"
    by (auto simp: numeral_eq_Suc length_Suc_conv)
  have sorted: "sort_by_total_desc scored = [b, d, c, a]"
    using scored(2) by (simp add: abcd sort_by_total_desc_def)
  have "map (\<lambda>r. (property_info r, matching_score r)) recs = [b, d, c]"
    using sl by (simp add: sorted py_slice_to_def)
  then obtain r1 r2 r3 where recs3: "recs = [r1, r2, r3]"
    and p: "(property_info r1, matching_score r1) = b"
       "(property_info r2, matching_score r2) = d"
       "(property_info r3, matching_score r3) = c"
    by (auto simp: map_eq_Cons_conv)
  have rk: "rank r1 = 1" "rank r2 = 2" "rank r3 = 3"
    using ranks by (simp_all add: recs3 upto_rec1)
  have "fst b = listing_P005" "fst c = listing_P002" "fst d = listing_P001"
    using fst by (simp_all add: abcd props_def)
  moreover have "total_score (snd b) = 7 / 8" "total_score (snd c) = 3715469692580659 / 4503599627370496"
    "total_score (snd d) = 7 / 8"
    using scored(2) by (simp_all add: abcd)
  ultimately have "map (\<lambda>r. (rank r, property_id (property_info r), total_score (matching_score r)))
       recs = [(1, Some [80, 48, 48, 53], 7 / 8), (2, Some [80, 48, 48, 49], 7 / 8),
        (3, Some [80, 48, 48, 50], 3715469692580659 / 4503599627370496)]"
    using p rk by (auto simp: recs3 example_defs)
  then show ?thesis using scored(1) by (auto simp: recs_def props_def)
qed


end
